theory Spec2Isabelle
  imports Main "HOL-Library.Word"
begin

section \<open>Data model of the cluster subsystem\<close>

subsection \<open>Errors (package fail)\<close>

text \<open>
  Every \<^verbatim>\<open>fail.Error\<close> the controller builds is a value of this type. A Go
  function returning \<^verbatim>\<open>(T, fail.Error)\<close> is modelled with result type
  \<open>error + T\<close>, one returning only \<^verbatim>\<open>fail.Error\<close> with \<open>error option\<close>
  (\<open>None\<close> is \<^verbatim>\<open>nil\<close>). A runtime panic (index out of range, slice bounds, call
  through a nil function value) is the error \<open>RuntimePanic\<close>.
\<close>

datatype error =
    InvalidInstanceError
  | InvalidParameterError string string
  | InvalidRequestError string
  | NotFoundError string
  | NotAvailableError string
  | NotImplementedError string
  | InconsistentError string
  | TimeoutError string
  | RuntimePanic string
  | NewError string
  | Wrap error string
  | WithConsequence error error
  | ErrorList "error list"

text \<open>\<^verbatim>\<open>switch xerr.(type) { case *fail.ErrNotFound: ... }\<close>\<close>

fun isNotFound :: "error \<Rightarrow> bool" where
  "isNotFound (NotFoundError m) = True"
| "isNotFound e = False"

subsection \<open>Machine integers\<close>

text \<open>Go's \<^verbatim>\<open>uint\<close> and \<^verbatim>\<open>int\<close> on the 64-bit platforms the daemon is built for;
  \<^verbatim>\<open>++\<close> wraps around. A value of \<open>go_int\<close> is read with \<open>sint\<close>.\<close>

type_synonym uint = "64 word"
type_synonym go_int = "64 word"

subsection \<open>Cluster state (enum clusterstate)\<close>

datatype clusterstate =
  Unknown | Creating | Nominal | Degraded | Starting | Stopping | Stopped | Removed

record ClusterState =
  State :: clusterstate
  StateCollectInterval :: nat

subsection \<open>Nodes property, versions 1 and 2\<close>

record ClusterNodeV1 =
  ID_v1 :: string
  Name_v1 :: string
  PrivateIP_v1 :: string
  PublicIP_v1 :: string

record ClusterNodesV1 =
  Masters_v1 :: "ClusterNodeV1 list"
  PrivateNodes_v1 :: "ClusterNodeV1 list"
  MasterLastIndex_v1 :: go_int
  PrivateLastIndex_v1 :: go_int

record ClusterNode =
  ID :: string
  NumericalID :: uint
  Name :: string
  PrivateIP :: string
  PublicIP :: string

record ClusterNodes =
  Masters :: "ClusterNode list"
  PrivateNodes :: "ClusterNode list"
  MasterLastIndex :: go_int
  PrivateLastIndex :: go_int
  GlobalLastIndex :: uint

subsection \<open>Network property, versions 1, 2 and 3\<close>

record ClusterNetworkV1 =
  NetworkID_v1 :: string
  CIDR_v1 :: string
  GatewayID_v1 :: string
  GatewayIP_v1 :: string
  PublicIP_net_v1 :: string

record ClusterNetworkV2 =
  NetworkID_v2 :: string
  CIDR_v2 :: string
  GatewayID_v2 :: string
  GatewayIP_v2 :: string
  SecondaryGatewayID_v2 :: string
  SecondaryGatewayIP_v2 :: string
  PrimaryPublicIP_v2 :: string
  SecondaryPublicIP_v2 :: string
  DefaultRouteIP_v2 :: string
  EndpointIP_v2 :: string
  Domain_v2 :: string

record ClusterNetwork =
  NetworkID :: string
  SubnetID :: string
  CIDR :: string
  GatewayID :: string
  GatewayIP :: string
  SecondaryGatewayID :: string
  SecondaryGatewayIP :: string
  PrimaryPublicIP :: string
  SecondaryPublicIP :: string
  DefaultRouteIP :: string
  EndpointIP :: string
  Domain :: string

subsection \<open>The property container (serialize.JSONProperties)\<close>

text \<open>
  Modelled from the spec: the container \<^verbatim>\<open>serialize.JSONProperties\<close> and the
  declarations of the property payloads are not among the sources. Following the spec
  (4.B, "a property is (tag, version, payload)"), each versioned tag the controller
  reads is a field holding the payload when the property is present. \<^verbatim>\<open>Lookup\<close> tells
  whether the tag is present; \<^verbatim>\<open>Inspect\<close> shows the payload and \<^verbatim>\<open>Alter\<close> mutates it,
  both starting from the zero value of the payload type when the tag is absent;
  \<^verbatim>\<open>Alter\<close> stores the mutated payload unless the mutator fails. The payloads are
  typed, so the \<^verbatim>\<open>InconsistentError\<close> answer to a failed type assertion has no
  counterpart. The State property is written by \<^verbatim>\<open>firstLight\<close> together with the
  identity and is carried unconditionally.
\<close>

record JSONProperties =
  NodesV1 :: "ClusterNodesV1 option"
  NodesV2 :: "ClusterNodes option"
  NetworkV1 :: "ClusterNetworkV1 option"
  NetworkV2 :: "ClusterNetworkV2 option"
  NetworkV3 :: "ClusterNetwork option"
  StateV1 :: ClusterState

definition Lookup :: "'p option \<Rightarrow> bool" where
  "Lookup p = (p \<noteq> None)"

definition payload :: "'p \<Rightarrow> 'p option \<Rightarrow> 'p" where
  "payload zero p = (case p of None \<Rightarrow> zero | Some v \<Rightarrow> v)"

definition zeroClusterNodesV1 :: ClusterNodesV1 where
  "zeroClusterNodesV1 =
     \<lparr>Masters_v1 = [], PrivateNodes_v1 = [], MasterLastIndex_v1 = 0, PrivateLastIndex_v1 = 0\<rparr>"

definition zeroClusterNodes :: ClusterNodes where
  "zeroClusterNodes =
     \<lparr>Masters = [], PrivateNodes = [], MasterLastIndex = 0, PrivateLastIndex = 0,
      GlobalLastIndex = 0\<rparr>"

definition zeroClusterNetworkV1 :: ClusterNetworkV1 where
  "zeroClusterNetworkV1 =
     \<lparr>NetworkID_v1 = [], CIDR_v1 = [], GatewayID_v1 = [], GatewayIP_v1 = [],
      PublicIP_net_v1 = []\<rparr>"

definition zeroClusterNetworkV2 :: ClusterNetworkV2 where
  "zeroClusterNetworkV2 =
     \<lparr>NetworkID_v2 = [], CIDR_v2 = [], GatewayID_v2 = [], GatewayIP_v2 = [],
      SecondaryGatewayID_v2 = [], SecondaryGatewayIP_v2 = [], PrimaryPublicIP_v2 = [],
      SecondaryPublicIP_v2 = [], DefaultRouteIP_v2 = [], EndpointIP_v2 = [], Domain_v2 = []\<rparr>"

definition zeroClusterNetwork :: ClusterNetwork where
  "zeroClusterNetwork =
     \<lparr>NetworkID = [], SubnetID = [], CIDR = [], GatewayID = [], GatewayIP = [],
      SecondaryGatewayID = [], SecondaryGatewayIP = [], PrimaryPublicIP = [],
      SecondaryPublicIP = [], DefaultRouteIP = [], EndpointIP = [], Domain = []\<rparr>"

subsection \<open>Provider, flavor makers and the cluster aggregate\<close>

text \<open>
  Modelled from the spec: the provider (\<^verbatim>\<open>iaas.Service\<close>) is an external collaborator
  (spec 6, \<^verbatim>\<open>StartHost(id)\<close>, \<^verbatim>\<open>StopHost(id)\<close>, \<^verbatim>\<open>CreateHost\<close>, \<^verbatim>\<open>DeleteHost\<close>). Its
  state is the set of hosts that exist and the set of hosts that are powered on. The
  other fields are the environment: \<open>refuses\<close> is the error, if any, the provider
  answers to a start or stop request for a host; \<open>LoadSubnet\<close> and
  \<open>GetDefaultRouteIP\<close> are the answers of the subnet facade for a subnet ID, and
  \<open>NewHost\<close> the answer to the allocation of a host facade.
\<close>

record Service =
  hosts :: "string set"
  running :: "string set"
  refuses :: "string \<Rightarrow> error option"
  LoadSubnet :: "string \<Rightarrow> error option"
  GetDefaultRouteIP :: "string \<Rightarrow> error + string"
  NewHost :: "error option"

definition StartHost :: "string \<Rightarrow> Service \<Rightarrow> error option \<times> Service" where
  "StartHost hid svc =
     (case refuses svc hid of
        Some e \<Rightarrow> (Some e, svc)
      | None \<Rightarrow> (None, svc\<lparr>running := insert hid (running svc)\<rparr>))"

definition StopHost :: "string \<Rightarrow> Service \<Rightarrow> error option \<times> Service" where
  "StopHost hid svc =
     (case refuses svc hid of
        Some e \<Rightarrow> (Some e, svc)
      | None \<Rightarrow> (None, svc\<lparr>running := running svc - {hid}\<rparr>))"

text \<open>
  Modelled from the spec (4.E): the host facade \<^verbatim>\<open>resources.Host\<close>. A value of this
  record is one host as the controller sees it: its ID and name, and the answers its
  operations give (creation at the provider, the IP getters, deletion, and the feature
  installations the controller runs on it through SSH). \<^verbatim>\<open>Create\<close> makes the host
  exist at the provider under the requested resource name, \<^verbatim>\<open>Delete\<close> removes it;
  a failed request changes nothing.
\<close>

record Host =
  GetID :: string
  GetName :: string
  GetPublicIP :: "error + string"
  GetPrivateIP :: "error + string"
  Create_answer :: "error option"
  Delete_answer :: "error option"
  installDocker :: "error option"
  installProxyCacheClient :: "error option"
  installNodeRequirements :: "error option"

definition host_Create :: "Host \<Rightarrow> string \<Rightarrow> Service \<Rightarrow> (error + Host) \<times> Service" where
  "host_Create rh resourceName svc =
     (case Create_answer rh of
        Some e \<Rightarrow> (Inl e, svc)
      | None \<Rightarrow> (Inr (rh\<lparr>GetName := resourceName\<rparr>),
                  svc\<lparr>hosts := insert (GetID rh) (hosts svc),
                      running := insert (GetID rh) (running svc)\<rparr>))"

definition host_Delete :: "Host \<Rightarrow> Service \<Rightarrow> error option \<times> Service" where
  "host_Delete rh svc =
     (case Delete_answer rh of
        Some e \<Rightarrow> (Some e, svc)
      | None \<Rightarrow> (None, svc\<lparr>hosts := hosts svc - {GetID rh},
                          running := running svc - {GetID rh}\<rparr>))"

text \<open>
  The flavor's callback table (\<^verbatim>\<open>flavors.Makers\<close>): every hook is a function value
  that may be \<^verbatim>\<open>nil\<close> (\<open>None\<close>). A hook receives the cluster, of which it can see
  the metadata and the provider; hosts are passed by their ID.
\<close>

type_synonym view = "JSONProperties \<times> Service"

record Makers =
  MinimumRequiredServers :: "(view \<Rightarrow> error + (uint \<times> uint \<times> uint)) option"
  ConfigureCluster :: "(view \<Rightarrow> error option) option"
  ConfigureGateway :: "(view \<Rightarrow> error option) option"
  ConfigureMaster :: "(view \<Rightarrow> uint \<Rightarrow> string \<Rightarrow> error option) option"
  ConfigureNode :: "(view \<Rightarrow> uint \<Rightarrow> string \<Rightarrow> error option) option"
  UnconfigureMaster :: "(view \<Rightarrow> string \<Rightarrow> error option) option"
  UnconfigureNode :: "(view \<Rightarrow> string \<Rightarrow> string \<Rightarrow> error option) option"
  JoinMasterToCluster :: "(view \<Rightarrow> string \<Rightarrow> error option) option"
  JoinNodeToCluster :: "(view \<Rightarrow> string \<Rightarrow> error option) option"
  LeaveNodeFromCluster :: "(view \<Rightarrow> string \<Rightarrow> string \<Rightarrow> error option) option"
  GetState_hook :: "(view \<Rightarrow> error + clusterstate) option"

record cluster =
  name :: string
  props :: JSONProperties
  makers :: Makers
  service :: Service
  installReverseProxy :: "error option"
  installRemoteDesktop :: "error option"

definition view_of :: "cluster \<Rightarrow> view" where
  "view_of c = (props c, service c)"

text \<open>
  Modelled from the spec (4.A): \<^verbatim>\<open>Alter(mutator)\<close> is a read-modify-write of the
  aggregate under its exclusive lock; on mutator error no write occurs. The mutator
  also hands back the values its closure assigns to captured variables.
\<close>

definition Alter :: "cluster \<Rightarrow> (JSONProperties \<Rightarrow> error + ('r \<times> JSONProperties))
    \<Rightarrow> (error + 'r) \<times> cluster" where
  "Alter c mutator =
     (case mutator (props c) of
        Inl e \<Rightarrow> (Inl e, c)
      | Inr (r, p') \<Rightarrow> (Inr r, c\<lparr>props := p'\<rparr>))"

section \<open>Property upgrades on load\<close>

subsection \<open>updateNodesPropertyIfNeeded\<close>

text \<open>The two \<^verbatim>\<open>for ... range\<close> loops of the mutator, one body each.\<close>

definition upgradeMaster :: "ClusterNodes \<Rightarrow> ClusterNodeV1 \<Rightarrow> ClusterNodes" where
  "upgradeMaster nodesV2 i =
     (let g = GlobalLastIndex nodesV2 + 1;
          node = \<lparr>ID = ID_v1 i, NumericalID = g, Name = Name_v1 i,
                  PrivateIP = PrivateIP_v1 i, PublicIP = PublicIP_v1 i\<rparr>
      in nodesV2\<lparr>GlobalLastIndex := g, Masters := Masters nodesV2 @ [node]\<rparr>)"

definition upgradePrivateNode :: "ClusterNodes \<Rightarrow> ClusterNodeV1 \<Rightarrow> ClusterNodes" where
  "upgradePrivateNode nodesV2 i =
     (let g = GlobalLastIndex nodesV2 + 1;
          node = \<lparr>ID = ID_v1 i, NumericalID = g, Name = Name_v1 i,
                  PrivateIP = PrivateIP_v1 i, PublicIP = PublicIP_v1 i\<rparr>
      in nodesV2\<lparr>GlobalLastIndex := g, PrivateNodes := PrivateNodes nodesV2 @ [node]\<rparr>)"

definition nodesV1_to_nodesV2 :: "ClusterNodesV1 \<Rightarrow> ClusterNodes \<Rightarrow> ClusterNodes" where
  "nodesV1_to_nodesV2 nodesV1 nodesV2 =
     (let n1 = foldl upgradeMaster nodesV2 (Masters_v1 nodesV1);
          n2 = foldl upgradePrivateNode n1 (PrivateNodes_v1 nodesV1)
      in n2\<lparr>MasterLastIndex := MasterLastIndex_v1 nodesV1,
             PrivateLastIndex := PrivateLastIndex_v1 nodesV1\<rparr>)"

definition updateNodesPropertyIfNeeded :: "cluster \<Rightarrow> error option \<times> cluster" where
  "updateNodesPropertyIfNeeded c =
     (case Alter c (\<lambda>p.
         if Lookup (NodesV2 p) then Inr ((), p)
         else
           let nodesV1 = payload zeroClusterNodesV1 (NodesV1 p);
               nodesV2 = payload zeroClusterNodes (NodesV2 p)
           in Inr ((), p\<lparr>NodesV2 := Some (nodesV1_to_nodesV2 nodesV1 nodesV2)\<rparr>))
      of (Inl e, c') \<Rightarrow> (Some e, c')
       | (Inr u, c') \<Rightarrow> (None, c'))"

subsection \<open>updateNetworkPropertyIfNeeded\<close>

definition networkV2_to_networkV3 :: "ClusterNetworkV2 \<Rightarrow> ClusterNetwork" where
  "networkV2_to_networkV3 networkV2 =
     \<lparr>NetworkID = [],
      SubnetID = NetworkID_v2 networkV2,
      CIDR = CIDR_v2 networkV2,
      GatewayID = GatewayID_v2 networkV2,
      GatewayIP = GatewayIP_v2 networkV2,
      SecondaryGatewayID = SecondaryGatewayID_v2 networkV2,
      SecondaryGatewayIP = SecondaryGatewayIP_v2 networkV2,
      PrimaryPublicIP = PrimaryPublicIP_v2 networkV2,
      SecondaryPublicIP = SecondaryPublicIP_v2 networkV2,
      DefaultRouteIP = DefaultRouteIP_v2 networkV2,
      EndpointIP = EndpointIP_v2 networkV2,
      Domain = Domain_v2 networkV2\<rparr>"

definition networkV1_to_networkV3 :: "ClusterNetworkV1 \<Rightarrow> ClusterNetwork" where
  "networkV1_to_networkV3 networkV1 =
     zeroClusterNetwork
       \<lparr>SubnetID := NetworkID_v1 networkV1,
        CIDR := CIDR_v1 networkV1,
        GatewayID := GatewayID_v1 networkV1,
        GatewayIP := GatewayIP_v1 networkV1,
        DefaultRouteIP := GatewayIP_v1 networkV1,
        EndpointIP := PublicIP_net_v1 networkV1\<rparr>"

text \<open>\<^verbatim>\<open>networkV3.Replace(config)\<close> overwrites the whole payload with \<open>config\<close>.\<close>

definition updateNetworkPropertyIfNeeded :: "cluster \<Rightarrow> error option \<times> cluster" where
  "updateNetworkPropertyIfNeeded c =
     (case Alter c (\<lambda>p.
         if Lookup (NetworkV3 p) then Inr ((), p)
         else
           let config =
                 (if Lookup (NetworkV2 p)
                  then networkV2_to_networkV3 (payload zeroClusterNetworkV2 (NetworkV2 p))
                  else networkV1_to_networkV3 (payload zeroClusterNetworkV1 (NetworkV1 p)))
           in Inr ((), p\<lparr>NetworkV3 := Some config\<rparr>))
      of (Inl e, c') \<Rightarrow> (Some e, c')
       | (Inr u, c') \<Rightarrow> (None, c'))"

section \<open>Lifecycle: GetState, Start, Stop\<close>

text \<open>
  The guards on a null receiver, a null task and ill-typed task parameters have no
  counterpart in the model, whose arguments are well-typed values. Log output is left
  out, and messages built with format verbs carry their fixed text only.
\<close>

definition setState :: "clusterstate \<Rightarrow> JSONProperties \<Rightarrow> error + (unit \<times> JSONProperties)" where
  "setState st p = Inr ((), p\<lparr>StateV1 := (StateV1 p)\<lparr>State := st\<rparr>\<rparr>)"

definition GetState :: "cluster \<Rightarrow> (error + clusterstate) \<times> cluster" where
  "GetState c =
     (case GetState_hook (makers c) of
        None \<Rightarrow> (Inl (NotImplementedError ''cluster maker does not define ForceGetState''), c)
      | Some hook \<Rightarrow>
          (case hook (view_of c) of
             Inl xerr \<Rightarrow> (Inl xerr, c)
           | Inr state \<Rightarrow>
               (case Alter c (setState state) of
                  (Inl xerr, c') \<Rightarrow> (Inl xerr, c')
                | (Inr u, c') \<Rightarrow> (Inr state, c'))))"

text \<open>
  Modelled from the spec (4.C, 4.G): a task group runs one \<^verbatim>\<open>taskStartHost\<close> (resp.
  \<^verbatim>\<open>taskStopHost\<close>) per host and \<^verbatim>\<open>WaitGroup\<close> reports an error when a child
  failed. The children are run in the order they were started.
\<close>

fun startHosts :: "string list \<Rightarrow> Service \<Rightarrow> error list \<times> Service" where
  "startHosts [] svc = ([], svc)"
| "startHosts (h # hs) svc =
     (case StartHost h svc of
        (r, svc') \<Rightarrow>
          (case startHosts hs svc' of
             (es, svc'') \<Rightarrow> ((case r of None \<Rightarrow> [] | Some e \<Rightarrow> [e]) @ es, svc'')))"

fun stopHosts :: "string list \<Rightarrow> Service \<Rightarrow> error list \<times> Service" where
  "stopHosts [] svc = ([], svc)"
| "stopHosts (h # hs) svc =
     (case StopHost h svc of
        (r, svc') \<Rightarrow>
          (case stopHosts hs svc' of
             (es, svc'') \<Rightarrow> ((case r of None \<Rightarrow> [] | Some e \<Rightarrow> [e]) @ es, svc'')))"

text \<open>
  Modelled from the spec (4.G): \<^verbatim>\<open>retry.WhileUnsuccessfulDelay5Seconds(f, 5*time.Minute)\<close>
  polls every 5 seconds for at most 5 minutes, that is a bounded number of attempts,
  and answers a timeout error when none succeeded.
\<close>

fun WhileUnsuccessfulDelay5Seconds ::
    "nat \<Rightarrow> (cluster \<Rightarrow> error option \<times> cluster) \<Rightarrow> cluster \<Rightarrow> error option \<times> cluster" where
  "WhileUnsuccessfulDelay5Seconds 0 f c = (Some (TimeoutError ''retries timed out''), c)"
| "WhileUnsuccessfulDelay5Seconds (Suc n) f c =
     (case f c of
        (None, c') \<Rightarrow> (None, c')
      | (Some e, c') \<Rightarrow> WhileUnsuccessfulDelay5Seconds n f c')"

definition attempts :: nat where
  "attempts = 60"

fun isTimeout :: "error \<Rightarrow> bool" where
  "isTimeout (TimeoutError m) = True"
| "isTimeout e = False"

text \<open>The gateway IDs read by \<^verbatim>\<open>Start\<close> and \<^verbatim>\<open>Stop\<close>: from Network v2 when present,
  else from Network v1 (then without a secondary gateway).\<close>

definition gatewayIDs :: "JSONProperties \<Rightarrow> string \<times> string" where
  "gatewayIDs p =
     (if Lookup (NetworkV2 p)
      then (let networkV2 = payload zeroClusterNetworkV2 (NetworkV2 p)
            in (GatewayID_v2 networkV2, SecondaryGatewayID_v2 networkV2))
      else (GatewayID_v1 (payload zeroClusterNetworkV1 (NetworkV1 p)), []))"

definition Start :: "cluster \<Rightarrow> error option \<times> cluster" where
  "Start c0 =
     (case GetState c0 of
        (Inl xerr, c) \<Rightarrow> (Some xerr, c)
      | (Inr prevState, c) \<Rightarrow>
          if prevState = Stopping \<or> prevState = Stopped then (None, c)
          else if prevState = Starting then
            (case WhileUnsuccessfulDelay5Seconds attempts
                    (\<lambda>c. case GetState c of
                           (Inl innerErr, c') \<Rightarrow> (Some innerErr, c')
                         | (Inr state, c') \<Rightarrow>
                             if state = Nominal \<or> state = Degraded then (None, c')
                             else (Some (NewError ''current state of cluster is''), c')) c of
               (Some xerr, c') \<Rightarrow>
                 (Some (if isTimeout xerr
                        then Wrap xerr ''timeout waiting cluster to become started''
                        else xerr), c')
             | (None, c') \<Rightarrow> (None, c'))
          else if prevState \<noteq> Stopped then
            (Some (NotAvailableError
               ''failed to start cluster because of it's current state''), c)
          else
            (case Alter c (setState Starting) of
               (Inl xerr, c1) \<Rightarrow> (Some xerr, c1)
             | (Inr u, c1) \<Rightarrow>
                 (case Alter c1 (setState Starting) of
                    (Inl xerr, c2) \<Rightarrow> (Some xerr, c2)
                  | (Inr u, c2) \<Rightarrow>
                      let nodesV2 = payload zeroClusterNodes (NodesV2 (props c1));
                          masters = Masters nodesV2;
                          nodes = PrivateNodes nodesV2;
                          (gatewayID, secondaryGatewayID) = gatewayIDs (props c1);
                          (errs, svc) =
                             startHosts ([gatewayID]
                                 @ (if secondaryGatewayID \<noteq> [] then [secondaryGatewayID] else [])
                                 @ map ID masters @ map ID nodes) (service c2);
                          c3 = c2\<lparr>service := svc\<rparr>
                      in if errs \<noteq> [] then (Some (ErrorList errs), c3)
                         else (case Alter c3 (setState Nominal) of
                                 (Inl xerr, c4) \<Rightarrow> (Some xerr, c4)
                               | (Inr u, c4) \<Rightarrow> (None, c4)))))"

text \<open>
  In \<^verbatim>\<open>Stop\<close> the hosts are stopped inside the second \<^verbatim>\<open>Alter\<close>: when stopping fails
  the mutator fails and the metadata keeps the state \<open>Stopping\<close>, while the hosts
  already stopped stay stopped.
\<close>

definition Stop :: "cluster \<Rightarrow> error option \<times> cluster" where
  "Stop c0 =
     (case GetState c0 of
        (Inl xerr, c) \<Rightarrow> (Some xerr, c)
      | (Inr prevState, c) \<Rightarrow>
          if prevState = Stopped then (None, c)
          else if prevState = Stopping then
            (case WhileUnsuccessfulDelay5Seconds attempts
                    (\<lambda>c. case GetState c of
                           (Inl innerErr, c') \<Rightarrow> (Some innerErr, c')
                         | (Inr state, c') \<Rightarrow>
                             if state \<noteq> Stopped
                             then (Some (NotAvailableError ''current state of cluster is''), c')
                             else (None, c')) c of
               (Some xerr, c') \<Rightarrow>
                 (Some (if isTimeout xerr
                        then Wrap xerr
                          ''timeout waiting cluster transitioning from state Stopping to Stopped''
                        else xerr), c')
             | (None, c') \<Rightarrow> (None, c'))
          else if prevState \<noteq> Nominal \<and> prevState \<noteq> Degraded then
            (Some (NotAvailableError
               ''failed to stop cluster because of it's current state''), c)
          else
            (case Alter c (setState Stopping) of
               (Inl xerr, c1) \<Rightarrow> (Some xerr, c1)
             | (Inr u, c1) \<Rightarrow>
                 let nodesV2 = payload zeroClusterNodes (NodesV2 (props c1));
                     masters = Masters nodesV2;
                     nodes = PrivateNodes nodesV2;
                     (gatewayID, secondaryGatewayID) = gatewayIDs (props c1);
                     (errs, svc) =
                        stopHosts (map ID nodes @ map ID masters @ [gatewayID]
                            @ (if secondaryGatewayID \<noteq> [] then [secondaryGatewayID] else []))
                          (service c1);
                     c2 = c1\<lparr>service := svc\<rparr>
                 in if errs \<noteq> [] then (Some (ErrorList errs), c2)
                    else (case Alter c2 (setState Stopped) of
                            (Inl xerr, c3) \<Rightarrow> (Some xerr, c3)
                          | (Inr u, c3) \<Rightarrow> (None, c3))))"

section \<open>Flavor hooks in the controller\<close>

text \<open>Calling a \<^verbatim>\<open>nil\<close> function value panics.\<close>

definition nilDereference :: error where
  "nilDereference = RuntimePanic ''invalid memory address or nil pointer dereference''"

definition taskConfigureGateway :: "cluster \<Rightarrow> Host \<Rightarrow> error option" where
  "taskConfigureGateway c host =
     (case ConfigureGateway (makers c) of
        Some hook \<Rightarrow> hook (view_of c)
      | None \<Rightarrow> None)"

definition taskConfigureMaster :: "cluster \<Rightarrow> uint \<Rightarrow> Host \<Rightarrow> error option" where
  "taskConfigureMaster c index host =
     (if index < 1 then
        Some (InvalidParameterError ''params.Index'' ''cannot be an integer less than 1'')
      else
        case installDocker host of
          Some xerr \<Rightarrow> Some xerr
        | None \<Rightarrow>
            if ConfigureNode (makers c) \<noteq> None then
              (case ConfigureMaster (makers c) of
                 None \<Rightarrow> Some nilDereference
               | Some hook \<Rightarrow> hook (view_of c) index (GetID host))
            else None)"

definition taskConfigureNode :: "cluster \<Rightarrow> uint \<Rightarrow> Host \<Rightarrow> error option" where
  "taskConfigureNode c index host =
     (if index < 1 then
        Some (InvalidParameterError ''params.Index'' ''cannot be an integer less than 1'')
      else
        case installDocker host of
          Some xerr \<Rightarrow> Some xerr
        | None \<Rightarrow>
            (case ConfigureNode (makers c) of
               None \<Rightarrow> None
             | Some hook \<Rightarrow> hook (view_of c) index (GetID host)))"

definition unconfigureMaster :: "cluster \<Rightarrow> Host \<Rightarrow> error option" where
  "unconfigureMaster c host =
     (case UnconfigureMaster (makers c) of
        Some hook \<Rightarrow> hook (view_of c) (GetID host)
      | None \<Rightarrow> None)"

definition configureCluster :: "cluster \<Rightarrow> error option" where
  "configureCluster c =
     (case installReverseProxy c of
        Some xerr \<Rightarrow> Some xerr
      | None \<Rightarrow>
          (case installRemoteDesktop c of
             Some xerr \<Rightarrow> Some xerr
           | None \<Rightarrow>
               (case ConfigureCluster (makers c) of
                  Some hook \<Rightarrow> hook (view_of c)
                | None \<Rightarrow> None)))"

definition determineRequiredNodes :: "cluster \<Rightarrow> error + (uint \<times> uint \<times> uint)" where
  "determineRequiredNodes c =
     (case MinimumRequiredServers (makers c) of
        Some hook \<Rightarrow>
          (case hook (view_of c) of
             Inl xerr \<Rightarrow> Inl xerr
           | Inr r \<Rightarrow> Inr r)
      | None \<Rightarrow> Inr (0, 0, 0))"

text \<open>\<^verbatim>\<open>configureNodesFromList\<close>: one \<^verbatim>\<open>taskConfigureNode\<close> per host, indexed from 1; the
  errors of the subtasks are collected.\<close>

fun configureNodesErrors :: "cluster \<Rightarrow> uint \<Rightarrow> Host list \<Rightarrow> error list" where
  "configureNodesErrors c i [] = []"
| "configureNodesErrors c i (h # hs) =
     (case taskConfigureNode c (i + 1) h of
        None \<Rightarrow> configureNodesErrors c (i + 1) hs
      | Some state \<Rightarrow> state # configureNodesErrors c (i + 1) hs)"

definition configureNodesFromList :: "cluster \<Rightarrow> Host list \<Rightarrow> error option" where
  "configureNodesFromList c hs =
     (let errs = configureNodesErrors c 0 hs
      in if errs \<noteq> [] then Some (ErrorList errs) else None)"

text \<open>The loop of \<^verbatim>\<open>joinNodesFromList\<close>, entered when \<^verbatim>\<open>JoinMasterToCluster\<close> is set;
  its body calls \<^verbatim>\<open>JoinNodeToCluster\<close>.\<close>

fun joinNodes :: "cluster \<Rightarrow> Host list \<Rightarrow> error option" where
  "joinNodes c [] = None"
| "joinNodes c (host # rest) =
     (case JoinNodeToCluster (makers c) of
        None \<Rightarrow> Some nilDereference
      | Some hook \<Rightarrow>
          (case hook (view_of c) (GetID host) of
             Some xerr \<Rightarrow> Some xerr
           | None \<Rightarrow> joinNodes c rest))"

definition joinNodesFromList :: "cluster \<Rightarrow> Host list \<Rightarrow> error option" where
  "joinNodesFromList c hs =
     (case (JoinNodeToCluster (makers c), ConfigureCluster (makers c)) of
        (None, Some hook) \<Rightarrow> hook (view_of c)
      | _ \<Rightarrow>
          if JoinMasterToCluster (makers c) \<noteq> None then joinNodes c hs else None)"

fun leaveNodesFromList :: "cluster \<Rightarrow> Host list \<Rightarrow> Host \<Rightarrow> error option" where
  "leaveNodesFromList c [] master = None"
| "leaveNodesFromList c (rh # rest) master =
     (case LeaveNodeFromCluster (makers c) of
        Some hook \<Rightarrow>
          (case hook (view_of c) (GetID rh) (GetID master) of
             Some xerr \<Rightarrow> Some xerr
           | None \<Rightarrow> leaveNodesFromList c rest master)
      | None \<Rightarrow> leaveNodesFromList c rest master)"

section \<open>Node worker pool: creation of masters and nodes\<close>

datatype clusternodetype = Gateway | Master | Node

text \<open>\<^verbatim>\<open>strconv.Itoa\<close>\<close>

fun decimal :: "nat \<Rightarrow> string" where
  "decimal n = (if n < 10 then [char_of (48 + n)] else decimal (n div 10) @ [char_of (48 + n mod 10)])"

declare decimal.simps [simp del]

definition Itoa :: "int \<Rightarrow> string" where
  "Itoa i = (if i < 0 then CHR ''-'' # decimal (nat (- i)) else decimal (nat i))"

definition GetNetworkConfig :: "cluster \<Rightarrow> ClusterNetwork" where
  "GetNetworkConfig c = payload zeroClusterNetwork (NetworkV3 (props c))"

definition nextIndex :: "clusternodetype \<Rightarrow> JSONProperties \<Rightarrow> error + (go_int \<times> JSONProperties)" where
  "nextIndex nodeType p =
     (let nodesV2 = payload zeroClusterNodes (NodesV2 p)
      in case nodeType of
           Node \<Rightarrow>
             (let n = nodesV2\<lparr>PrivateLastIndex := PrivateLastIndex nodesV2 + 1\<rparr>
              in Inr (PrivateLastIndex n, p\<lparr>NodesV2 := Some n\<rparr>))
         | Master \<Rightarrow>
             (let n = nodesV2\<lparr>MasterLastIndex := MasterLastIndex nodesV2 + 1\<rparr>
              in Inr (MasterLastIndex n, p\<lparr>NodesV2 := Some n\<rparr>))
         | Gateway \<Rightarrow> Inr (0, p\<lparr>NodesV2 := Some nodesV2\<rparr>))"

definition buildHostname :: "cluster \<Rightarrow> string \<Rightarrow> clusternodetype \<Rightarrow> (error + string) \<times> cluster" where
  "buildHostname c core nodeType =
     (case Alter c (nextIndex nodeType) of
        (Inl xerr, c') \<Rightarrow> (Inl xerr, c')
      | (Inr index, c') \<Rightarrow> (Inr (name c' @ ''-'' @ core @ ''-'' @ Itoa (sint index)), c'))"

text \<open>
  The mutators that reference a new host in the Nodes property. The entries of the node
  lists are pointers in the source; every entry is built with
  \<^verbatim>\<open>&propertiesv2.ClusterNode{...}\<close> where it is appended, so the lists hold no
  \<^verbatim>\<open>nil\<close> entry and are lists of records here.
\<close>

definition newClusterNode :: "Host \<Rightarrow> uint \<Rightarrow> error + ClusterNode" where
  "newClusterNode rh g =
     (case (case GetPublicIP rh of
              Inl innerXErr \<Rightarrow> if isNotFound innerXErr then Inr [] else Inl innerXErr
            | Inr ip \<Rightarrow> Inr ip) of
        Inl innerXErr \<Rightarrow> Inl innerXErr
      | Inr pubIP \<Rightarrow>
          (case GetPrivateIP rh of
             Inl innerXErr \<Rightarrow> Inl innerXErr
           | Inr privIP \<Rightarrow>
               Inr \<lparr>ID = GetID rh, NumericalID = g, Name = GetName rh,
                    PrivateIP = privIP, PublicIP = pubIP\<rparr>))"

definition registerMaster :: "Host \<Rightarrow> JSONProperties \<Rightarrow> error + (unit \<times> JSONProperties)" where
  "registerMaster rh p =
     (let nodesV2 = payload zeroClusterNodes (NodesV2 p);
          g = GlobalLastIndex nodesV2 + 1
      in case newClusterNode rh g of
           Inl innerXErr \<Rightarrow> Inl innerXErr
         | Inr node \<Rightarrow>
             Inr ((), p\<lparr>NodesV2 :=
                Some (nodesV2\<lparr>GlobalLastIndex := g, Masters := Masters nodesV2 @ [node]\<rparr>)\<rparr>))"

definition registerNode :: "Host \<Rightarrow> JSONProperties \<Rightarrow> error + (unit \<times> JSONProperties)" where
  "registerNode rh p =
     (let nodesV2 = payload zeroClusterNodes (NodesV2 p);
          g = GlobalLastIndex nodesV2 + 1
      in case newClusterNode rh g of
           Inl innerXErr \<Rightarrow> Inl innerXErr
         | Inr node \<Rightarrow>
             Inr ((), p\<lparr>NodesV2 :=
                Some (nodesV2\<lparr>GlobalLastIndex := g,
                               PrivateNodes := PrivateNodes nodesV2 @ [node]\<rparr>)\<rparr>))"

text \<open>
  \<^verbatim>\<open>taskCreateMaster\<close> with parameters \<open>Index\<close> and \<open>NoKeep\<close>; \<open>host\<close> is the facade the
  task obtains for the host it creates. The sizing of the host only parameterises the
  provider's request, whose answer is part of \<open>host\<close>, and is left out.
\<close>

definition taskCreateMaster :: "cluster \<Rightarrow> uint \<Rightarrow> bool \<Rightarrow> Host \<Rightarrow> error option \<times> cluster" where
  "taskCreateMaster c0 Index NoKeep host =
     (if Index < 1 then
        (Some (InvalidParameterError ''params.Index'' ''must be an integer greater than 0''), c0)
      else
        let netCfg = GetNetworkConfig c0 in
        case LoadSubnet (service c0) (SubnetID netCfg) of
          Some xerr \<Rightarrow> (Some xerr, c0)
        | None \<Rightarrow>
        (case buildHostname c0 ''master'' Master of
          (Inl xerr, c1) \<Rightarrow> (Some xerr, c1)
        | (Inr resourceName, c1) \<Rightarrow>
        (case NewHost (service c1) of
          Some xerr \<Rightarrow> (Some xerr, c1)
        | None \<Rightarrow>
        (case host_Create host resourceName (service c1) of
          (Inl xerr, svc) \<Rightarrow> (Some xerr, c1\<lparr>service := svc\<rparr>)
        | (Inr rh, svc) \<Rightarrow>
        (case Alter (c1\<lparr>service := svc\<rparr>) (registerMaster rh) of
          (Inl xerr, c2) \<Rightarrow>
            if NoKeep then
              (case host_Delete rh (service c2) of
                 (Some derr, svc') \<Rightarrow>
                   (Some (Wrap (WithConsequence xerr derr) ''Host creation failed''),
                    c2\<lparr>service := svc'\<rparr>)
               | (None, svc') \<Rightarrow>
                   (Some (Wrap xerr ''Host creation failed''), c2\<lparr>service := svc'\<rparr>))
            else (Some (Wrap xerr ''Host creation failed''), c2)
        | (Inr u, c2) \<Rightarrow>
        (case installProxyCacheClient rh of
          Some xerr \<Rightarrow> (Some xerr, c2)
        | None \<Rightarrow>
        (case installNodeRequirements rh of
          Some xerr \<Rightarrow> (Some xerr, c2)
        | None \<Rightarrow> (None, c2))))))))"

text \<open>The deferred function of \<^verbatim>\<open>taskCreateNode\<close>, registered once the host is created:
  \<^verbatim>\<open>if xerr != nil && p.NoKeep { if derr := rh.Delete(task); derr != nil { _ = xerr.AddConsequence(derr) } }\<close>\<close>

definition deleteOnFailure :: "bool \<Rightarrow> Host \<Rightarrow> (error + 'a) \<times> cluster \<Rightarrow> (error + 'a) \<times> cluster" where
  "deleteOnFailure NoKeep rh rc =
     (case rc of
        (Inl xerr, c) \<Rightarrow>
          if NoKeep then
            (case host_Delete rh (service c) of
               (Some derr, svc) \<Rightarrow> (Inl (WithConsequence xerr derr), c\<lparr>service := svc\<rparr>)
             | (None, svc) \<Rightarrow> (Inl xerr, c\<lparr>service := svc\<rparr>))
          else (Inl xerr, c)
      | (Inr r, c) \<Rightarrow> (Inr r, c))"

definition taskCreateNode :: "cluster \<Rightarrow> uint \<Rightarrow> bool \<Rightarrow> Host \<Rightarrow> (error + Host) \<times> cluster" where
  "taskCreateNode c0 Index NoKeep host =
     (if Index < 1 then
        (Inl (InvalidParameterError ''params.Index'' ''cannot be an integer less than 1''), c0)
      else
        let netCfg = GetNetworkConfig c0 in
        case LoadSubnet (service c0) (SubnetID netCfg) of
          Some xerr \<Rightarrow> (Inl xerr, c0)
        | None \<Rightarrow>
        (case buildHostname c0 ''node'' Node of
          (Inl xerr, c1) \<Rightarrow> (Inl xerr, c1)
        | (Inr resourceName, c1) \<Rightarrow>
        (case GetDefaultRouteIP (service c1) (SubnetID netCfg) of
          Inl xerr \<Rightarrow> (Inl xerr, c1)
        | Inr defaultRouteIP \<Rightarrow>
        (case NewHost (service c1) of
          Some xerr \<Rightarrow> (Inl xerr, c1)
        | None \<Rightarrow>
        (case host_Create host resourceName (service c1) of
          (Inl xerr, svc) \<Rightarrow> (Inl xerr, c1\<lparr>service := svc\<rparr>)
        | (Inr rh, svc) \<Rightarrow>
            deleteOnFailure NoKeep rh
              (case Alter (c1\<lparr>service := svc\<rparr>) (registerNode rh) of
                 (Inl xerr, c2) \<Rightarrow> (Inl (Wrap xerr ''creation failed''), c2)
               | (Inr u, c2) \<Rightarrow>
                   (case installProxyCacheClient rh of
                      Some xerr \<Rightarrow> (Inl xerr, c2)
                    | None \<Rightarrow>
                        (case installNodeRequirements rh of
                           Some xerr \<Rightarrow> (Inl xerr, c2)
                         | None \<Rightarrow> (Inr rh, c2)))))))))"

text \<open>
  The fan-outs. A subtask of index \<open>i\<close> works on the host facade \<open>env i\<close>; the subtasks
  are run in the order they are started, and starting a subtask does not fail.
\<close>

fun createMasters :: "cluster \<Rightarrow> bool \<Rightarrow> (uint \<Rightarrow> Host) \<Rightarrow> uint list \<Rightarrow> error list \<times> cluster" where
  "createMasters c NoKeep env [] = ([], c)"
| "createMasters c NoKeep env (i # rest) =
     (case taskCreateMaster c i NoKeep (env i) of
        (state, c') \<Rightarrow>
          (case createMasters c' NoKeep env rest of
             (errs, c'') \<Rightarrow> ((case state of None \<Rightarrow> [] | Some e \<Rightarrow> [e]) @ errs, c'')))"

definition taskCreateMasters :: "cluster \<Rightarrow> uint \<Rightarrow> bool \<Rightarrow> (uint \<Rightarrow> Host) \<Rightarrow> error option \<times> cluster" where
  "taskCreateMasters c Count NoKeep env =
     (if Count < 1 then
        (Some (InvalidParameterError ''params.Count'' ''cannot be an integer less than 1''), c)
      else if Count = 0 then (None, c)
      else
        case createMasters c NoKeep env (map (\<lambda>i. of_nat i + 1) [0..<unat Count]) of
          (errs, c') \<Rightarrow>
            if errs \<noteq> [] then (Some (NewError ''failed to create master(s)''), c')
            else (None, c'))"

fun createNodes :: "cluster \<Rightarrow> bool \<Rightarrow> (uint \<Rightarrow> Host) \<Rightarrow> uint list
    \<Rightarrow> (error list \<times> Host list) \<times> cluster" where
  "createNodes c NoKeep env [] = (([], []), c)"
| "createNodes c NoKeep env (i # rest) =
     (case taskCreateNode c i NoKeep (env i) of
        (res, c') \<Rightarrow>
          (case createNodes c' NoKeep env rest of
             ((errs, hs), c'') \<Rightarrow>
               (case res of
                  Inl e \<Rightarrow> ((e # errs, hs), c'')
                | Inr rh \<Rightarrow> ((errs, rh # hs), c''))))"

text \<open>\<^verbatim>\<open>for i := uint(1); i <= p.Count; i++\<close>: the indexes of the subtasks started. The loop
  does not end when \<open>p.Count\<close> is the largest \<^verbatim>\<open>uint\<close>.\<close>

partial_function (option) nodeIndexes :: "uint \<Rightarrow> uint \<Rightarrow> uint list \<Rightarrow> uint list option" where
  "nodeIndexes i Count acc =
     (if i \<le> Count then nodeIndexes (i + 1) Count (acc @ [i]) else Some acc)"

definition taskCreateNodes ::
    "cluster \<Rightarrow> uint \<Rightarrow> bool \<Rightarrow> (uint \<Rightarrow> Host) \<Rightarrow> (error option \<times> cluster) option" where
  "taskCreateNodes c Count NoKeep env =
     (if Count < 1 then
        Some (Some (InvalidParameterError ''params.Count'' ''cannot be an integer less than 1''), c)
      else if Count = 0 then Some (None, c)
      else
        case nodeIndexes 1 Count [] of
          None \<Rightarrow> None
        | Some indexes \<Rightarrow>
            (case createNodes c NoKeep env indexes of
               ((errs, hs), c') \<Rightarrow>
                 if errs \<noteq> [] then Some (Some (ErrorList errs), c')
                 else Some (None, c')))"

fun deleteHosts :: "Host list \<Rightarrow> Service \<Rightarrow> error list \<times> Service" where
  "deleteHosts [] svc = ([], svc)"
| "deleteHosts (h # hs) svc =
     (case host_Delete h svc of
        (r, svc') \<Rightarrow>
          (case deleteHosts hs svc' of
             (es, svc'') \<Rightarrow> ((case r of None \<Rightarrow> [] | Some e \<Rightarrow> [e]) @ es, svc'')))"

text \<open>
  \<^verbatim>\<open>AddNodes\<close>. The Defaults property and \<^verbatim>\<open>complementHostDefinition\<close> determine the
  sizing requested for the new hosts and nothing else; they are left out with the sizing.
  The deferred cleanup deletes the hosts created when the function exits with an error.
\<close>

definition AddNodes :: "cluster \<Rightarrow> uint \<Rightarrow> (uint \<Rightarrow> Host) \<Rightarrow> (error + Host list) \<times> cluster" where
  "AddNodes c count env =
     (if count = 0 then (Inl (InvalidParameterError ''count'' ''must be an int > 0''), c)
      else
        case createNodes c False env (map (\<lambda>i. of_nat i + 1) [0..<unat count]) of
          ((errors, newHosts), c1) \<Rightarrow>
            let xerr =
                  (if errors \<noteq> [] then Some (NewError ''errors occurred on node addition'')
                   else case configureNodesFromList c1 newHosts of
                          Some e \<Rightarrow> Some e
                        | None \<Rightarrow> joinNodesFromList c1 newHosts)
            in case xerr of
                 None \<Rightarrow> (Inr newHosts, c1)
               | Some e \<Rightarrow>
                   if newHosts \<noteq> [] then
                     (case deleteHosts newHosts (service c1) of
                        (derrs, svc) \<Rightarrow>
                          (Inl (if derrs \<noteq> [] then WithConsequence e (ErrorList derrs) else e),
                           c1\<lparr>service := svc\<rparr>))
                   else (Inl e, c1))"

section \<open>Removal of nodes\<close>

fun containsClusterNode :: "ClusterNode list \<Rightarrow> string \<Rightarrow> bool \<times> nat" where
  "containsClusterNode [] hostID = (False, 0)"
| "containsClusterNode (v # vs) hostID =
     (if ID v = hostID then (True, 0)
      else case containsClusterNode vs hostID of
             (found, idx) \<Rightarrow> (found, if found then Suc idx else 0))"

definition removeNode :: "Host \<Rightarrow> JSONProperties \<Rightarrow> error + (ClusterNode \<times> JSONProperties)" where
  "removeNode host p =
     (let nodesV2 = payload zeroClusterNodes (NodesV2 p)
      in case containsClusterNode (PrivateNodes nodesV2) (GetID host) of
           (found, idx) \<Rightarrow>
             if \<not> found then Inl (NotFoundError ''failed to find node in cluster'')
             else
               let node = PrivateNodes nodesV2 ! idx;
                   length = length (PrivateNodes nodesV2)
               in Inr (node, p\<lparr>NodesV2 := Some (nodesV2\<lparr>PrivateNodes :=
                     (if int idx < int length - 1
                      then take idx (PrivateNodes nodesV2) @ drop (idx + 1) (PrivateNodes nodesV2)
                      else take idx (PrivateNodes nodesV2))\<rparr>)\<rparr>))"

definition restoreNode :: "ClusterNode \<Rightarrow> JSONProperties \<Rightarrow> error + (unit \<times> JSONProperties)" where
  "restoreNode node p =
     (let nodesV2 = payload zeroClusterNodes (NodesV2 p)
      in Inr ((), p\<lparr>NodesV2 := Some (nodesV2\<lparr>PrivateNodes := PrivateNodes nodesV2 @ [node]\<rparr>)\<rparr>))"

definition deleteNode :: "cluster \<Rightarrow> Host \<Rightarrow> Host \<Rightarrow> error option \<times> cluster" where
  "deleteNode c host master =
     (case Alter c (removeNode host) of
        (Inl xerr, c1) \<Rightarrow> (Some xerr, c1)
      | (Inr node, c1) \<Rightarrow>
          let (xerr, svc) =
                (case leaveNodesFromList c1 [host] master of
                   Some innerXErr \<Rightarrow> (Some innerXErr, service c1)
                 | None \<Rightarrow>
                     (case (case UnconfigureNode (makers c1) of
                              Some hook \<Rightarrow> hook (view_of c1) (GetID host) (GetID master)
                            | None \<Rightarrow> None) of
                        Some innerXErr \<Rightarrow> (Some innerXErr, service c1)
                      | None \<Rightarrow>
                          (case host_Delete host (service c1) of
                             (Some innerXErr, svc') \<Rightarrow>
                               if isNotFound innerXErr then (None, svc')
                               else (Some innerXErr, svc')
                           | (None, svc') \<Rightarrow> (None, svc'))));
              c2 = c1\<lparr>service := svc\<rparr>
          in case xerr of
               None \<Rightarrow> (None, c2)
             | Some e \<Rightarrow>
                 (case Alter c2 (restoreNode node) of
                    (Inl derr, c3) \<Rightarrow> (Some (WithConsequence e derr), c3)
                  | (Inr u, c3) \<Rightarrow> (Some e, c3)))"

text \<open>
  \<^verbatim>\<open>DeleteLastNode\<close>. The mutator assigns the captured variable \<open>node\<close>, a pointer that
  is \<^verbatim>\<open>nil\<close> (\<open>None\<close>) until then; \<^verbatim>\<open>PrivateNodes[len(PrivateNodes)-1]\<close> panics when
  the index is out of range. The answers of \<^verbatim>\<open>FindAvailableMaster\<close> and of \<^verbatim>\<open>LoadHost\<close>,
  which query the hosts, are inputs.
\<close>

definition selectLastNode :: "ClusterNodes \<Rightarrow> error + ClusterNode option" where
  "selectLastNode nodesV2 =
     (let i = int (length (PrivateNodes nodesV2)) - 1
      in if i < 0 \<or> int (length (PrivateNodes nodesV2)) \<le> i
         then Inl (RuntimePanic ''index out of range'')
         else Inr (Some (PrivateNodes nodesV2 ! nat i)))"

definition DeleteLastNode ::
    "cluster \<Rightarrow> (error + Host) \<Rightarrow> (string \<Rightarrow> error + Host) \<Rightarrow> (error + ClusterNode) \<times> cluster" where
  "DeleteLastNode c FindAvailableMaster LoadHost =
     (case selectLastNode (payload zeroClusterNodes (NodesV2 (props c))) of
        Inl xerr \<Rightarrow> (Inl xerr, c)
      | Inr None \<Rightarrow> (Inl (NotFoundError ''failed to find last node''), c)
      | Inr (Some node) \<Rightarrow>
          (case FindAvailableMaster of
             Inl xerr \<Rightarrow> (Inl xerr, c)
           | Inr selectedMaster \<Rightarrow>
               (case LoadHost (ID node) of
                  Inl xerr \<Rightarrow> (Inl xerr, c)
                | Inr rh \<Rightarrow>
                    (case deleteNode c rh selectedMaster of
                       (Some xerr, c') \<Rightarrow> (Inl xerr, c')
                     | (None, c') \<Rightarrow> (Inr node, c')))))"

text \<open>
  \<^verbatim>\<open>Shrink\<close> (listener): the mutator that reserves the nodes to remove, and the mutator
  of the deferred function that puts them back. \<open>count\<close>, \<open>length\<close> and \<open>first\<close> are
  \<^verbatim>\<open>uint\<close>. The slice expression \<^verbatim>\<open>PrivateNodes[:first-1]\<close> panics when its bound
  exceeds the capacity of the slice; the capacity is at least the length, \<open>first - 1\<close>
  is below the length when \<open>first\<close> is positive, and it is the largest \<^verbatim>\<open>uint\<close>, beyond
  any capacity, when \<open>first\<close> is 0.
\<close>

definition Shrink_reserve :: "uint \<Rightarrow> ClusterNodes \<Rightarrow> error + (ClusterNode list \<times> ClusterNodes)" where
  "Shrink_reserve count nodesV2 =
     (let length = (of_nat (length (PrivateNodes nodesV2)) :: uint)
      in if length < count then Inl (InvalidRequestError ''cannot shrink, not enough nodes available'')
         else
           let first = length - count;
               toRemove = drop (unat first) (PrivateNodes nodesV2)
           in if List.length (PrivateNodes nodesV2) < unat (first - 1)
              then Inl (RuntimePanic ''slice bounds out of range'')
              else Inr (toRemove,
                        nodesV2\<lparr>PrivateNodes := take (unat (first - 1)) (PrivateNodes nodesV2)\<rparr>))"

definition Shrink_restore :: "ClusterNode list \<Rightarrow> ClusterNodes \<Rightarrow> ClusterNodes" where
  "Shrink_restore toRemove nodesV2 = nodesV2\<lparr>PrivateNodes := PrivateNodes nodesV2 @ toRemove\<rparr>"

section \<open>Sequences of creations\<close>

text \<open>
  A sequence of \<^verbatim>\<open>taskCreateMaster\<close> and \<^verbatim>\<open>taskCreateNode\<close> runs on one cluster, each
  with its parameters and host facade. \<open>createSequence\<close> runs them one after the other
  and lists, in creation order, the numerical ID recorded for the host of each run that
  succeeded: that of the record the run appended to its list.
\<close>

datatype create_op = CreateMaster uint bool Host | CreateNode uint bool Host

fun createSequence :: "create_op list \<Rightarrow> cluster \<Rightarrow> uint list \<times> cluster" where
  "createSequence [] c = ([], c)"
| "createSequence (CreateMaster Index NoKeep host # ops) c =
     (case taskCreateMaster c Index NoKeep host of
        (Some xerr, c') \<Rightarrow> createSequence ops c'
      | (None, c') \<Rightarrow>
          (case createSequence ops c' of
             (ids, c'') \<Rightarrow>
               (NumericalID (last (Masters (payload zeroClusterNodes (NodesV2 (props c'))))) # ids,
                c'')))"
| "createSequence (CreateNode Index NoKeep host # ops) c =
     (case taskCreateNode c Index NoKeep host of
        (Inl xerr, c') \<Rightarrow> createSequence ops c'
      | (Inr rh, c') \<Rightarrow>
          (case createSequence ops c' of
             (ids, c'') \<Rightarrow>
               (NumericalID (last (PrivateNodes (payload zeroClusterNodes (NodesV2 (props c'))))) # ids,
                c'')))"

text \<open>
  Concurrent creations. The tasks touch the metadata only inside \<^verbatim>\<open>Alter\<close>, in the
  mutator of \<^verbatim>\<open>buildHostname\<close> and in the mutator that registers the host, and
  concurrent \<^verbatim>\<open>Alter\<close> calls on one cluster are serialized (spec 4.A). A concurrent
  execution of any number of creations is therefore a sequence of such steps, in the
  order the lock was granted. \<open>schedule\<close> runs such a sequence on the metadata and
  lists the numerical IDs recorded by the registrations that succeeded; a mutator that
  fails writes nothing.
\<close>

datatype alter_step = NextIndex clusternodetype | RegisterMaster Host | RegisterNode Host

fun schedule :: "alter_step list \<Rightarrow> JSONProperties \<Rightarrow> uint list \<times> JSONProperties" where
  "schedule [] p = ([], p)"
| "schedule (NextIndex nodeType # steps) p =
     (case nextIndex nodeType p of
        Inl xerr \<Rightarrow> schedule steps p
      | Inr (index, p') \<Rightarrow> schedule steps p')"
| "schedule (RegisterMaster rh # steps) p =
     (case registerMaster rh p of
        Inl xerr \<Rightarrow> schedule steps p
      | Inr (u, p') \<Rightarrow>
          (case schedule steps p' of
             (ids, p'') \<Rightarrow>
               (NumericalID (last (Masters (payload zeroClusterNodes (NodesV2 p')))) # ids, p'')))"
| "schedule (RegisterNode rh # steps) p =
     (case registerNode rh p of
        Inl xerr \<Rightarrow> schedule steps p
      | Inr (u, p') \<Rightarrow>
          (case schedule steps p' of
             (ids, p'') \<Rightarrow>
               (NumericalID (last (PrivateNodes (payload zeroClusterNodes (NodesV2 p')))) # ids, p'')))"

section \<open>Observations used in the statements\<close>

text \<open>What the upgrade of the Nodes property has to copy for each node.\<close>

definition node_identity :: "ClusterNode \<Rightarrow> string \<times> string \<times> string \<times> string" where
  "node_identity n = (ID n, Name n, PrivateIP n, PublicIP n)"

definition node_identity_v1 :: "ClusterNodeV1 \<Rightarrow> string \<times> string \<times> string \<times> string" where
  "node_identity_v1 n = (ID_v1 n, Name_v1 n, PrivateIP_v1 n, PublicIP_v1 n)"

text \<open>The nodes a version-1 list is upgraded to when the counter stands at \<open>g\<close>.\<close>

definition upgraded :: "uint \<Rightarrow> ClusterNodeV1 list \<Rightarrow> ClusterNode list" where
  "upgraded g xs =
     map (\<lambda>(k, i). \<lparr>ID = ID_v1 i, NumericalID = g + of_nat (Suc k), Name = Name_v1 i,
                      PrivateIP = PrivateIP_v1 i, PublicIP = PublicIP_v1 i\<rparr>)
       (enumerate 0 xs)"

text \<open>The Nodes property as the controller reads it, and its counter.\<close>

definition nodesOf :: "cluster \<Rightarrow> ClusterNodes" where
  "nodesOf c = payload zeroClusterNodes (NodesV2 (props c))"

definition stateOf :: "cluster \<Rightarrow> clusterstate" where
  "stateOf c = State (StateV1 (props c))"

text \<open>
  The steps of \<^verbatim>\<open>taskCreateMaster\<close> (resp. \<^verbatim>\<open>taskCreateNode\<close>) up to and including the
  creation of the host at the provider succeed.
\<close>

definition createdMaster :: "cluster \<Rightarrow> uint \<Rightarrow> Host \<Rightarrow> bool" where
  "createdMaster c Index host =
     (\<not> Index < 1 \<and> LoadSubnet (service c) (SubnetID (GetNetworkConfig c)) = None \<and>
      NewHost (service c) = None \<and> Create_answer host = None)"

definition createdNode :: "cluster \<Rightarrow> uint \<Rightarrow> Host \<Rightarrow> bool" where
  "createdNode c Index host =
     (\<not> Index < 1 \<and> LoadSubnet (service c) (SubnetID (GetNetworkConfig c)) = None \<and>
      (case GetDefaultRouteIP (service c) (SubnetID (GetNetworkConfig c)) of
         Inl xerr \<Rightarrow> False | Inr ip \<Rightarrow> True) \<and>
      NewHost (service c) = None \<and> Create_answer host = None)"

text \<open>The IP getters of the host answer, so that the host can be registered in the
  metadata (NotFound is an answer for the public IP: the host has none).\<close>

definition readable :: "Host \<Rightarrow> bool" where
  "readable rh =
     ((case GetPublicIP rh of Inl innerXErr \<Rightarrow> isNotFound innerXErr | Inr ip \<Rightarrow> True) \<and>
      (case GetPrivateIP rh of Inl innerXErr \<Rightarrow> False | Inr ip \<Rightarrow> True))"

text \<open>The cluster once the host is created: the index of the role is consumed and the
  host exists at the provider.\<close>

definition afterCreation :: "clusternodetype \<Rightarrow> cluster \<Rightarrow> Host \<Rightarrow> cluster" where
  "afterCreation nodeType c host =
     c\<lparr>props := (props c)\<lparr>NodesV2 := Some
          (case nodeType of
             Node \<Rightarrow> (nodesOf c)\<lparr>PrivateLastIndex := PrivateLastIndex (nodesOf c) + 1\<rparr>
           | Master \<Rightarrow> (nodesOf c)\<lparr>MasterLastIndex := MasterLastIndex (nodesOf c) + 1\<rparr>
           | Gateway \<Rightarrow> nodesOf c)\<rparr>,
       service := (service c)\<lparr>hosts := insert (GetID host) (hosts (service c)),
                             running := insert (GetID host) (running (service c))\<rparr>\<rparr>"

section \<open>Example clusters\<close>

definition noMakers :: Makers where
  "noMakers =
     \<lparr>MinimumRequiredServers = None, ConfigureCluster = None, ConfigureGateway = None,
      ConfigureMaster = None, ConfigureNode = None, UnconfigureMaster = None,
      UnconfigureNode = None, JoinMasterToCluster = None, JoinNodeToCluster = None,
      LeaveNodeFromCluster = None, GetState_hook = None\<rparr>"

text \<open>A flavor whose \<^verbatim>\<open>GetState\<close> reports the state recorded in the metadata.\<close>

definition recordedState :: "view \<Rightarrow> error + clusterstate" where
  "recordedState v = Inr (State (StateV1 (fst v)))"

definition bohMakers :: Makers where
  "bohMakers = noMakers\<lparr>GetState_hook := Some recordedState\<rparr>"

definition okService :: Service where
  "okService =
     \<lparr>hosts = {''gw'', ''m1'', ''n1'', ''n2'', ''n3''},
      running = {''gw'', ''m1'', ''n1'', ''n2'', ''n3''},
      refuses = (\<lambda>h. None), LoadSubnet = (\<lambda>s. None),
      GetDefaultRouteIP = (\<lambda>s. Inr ''192.168.200.1''), NewHost = None\<rparr>"

definition node :: "string \<Rightarrow> uint \<Rightarrow> ClusterNode" where
  "node i k = \<lparr>ID = i, NumericalID = k, Name = ''c1-'' @ i, PrivateIP = ''10.0.0.1'', PublicIP = []\<rparr>"

definition nodeV1 :: "string \<Rightarrow> ClusterNodeV1" where
  "nodeV1 i = \<lparr>ID_v1 = i, Name_v1 = ''c1-'' @ i, PrivateIP_v1 = ''10.0.0.1'', PublicIP_v1 = []\<rparr>"

definition threeNodes :: ClusterNodes where
  "threeNodes =
     \<lparr>Masters = [node ''m1'' 1], PrivateNodes = [node ''n1'' 2, node ''n2'' 3, node ''n3'' 4],
      MasterLastIndex = 1, PrivateLastIndex = 3, GlobalLastIndex = 4\<rparr>"

definition legacyNodes :: ClusterNodesV1 where
  "legacyNodes =
     \<lparr>Masters_v1 = [nodeV1 ''m1''], PrivateNodes_v1 = [nodeV1 ''n1'', nodeV1 ''n2''],
      MasterLastIndex_v1 = 1, PrivateLastIndex_v1 = 2\<rparr>"

definition legacyNetwork :: ClusterNetworkV1 where
  "legacyNetwork =
     \<lparr>NetworkID_v1 = ''net-1'', CIDR_v1 = ''192.168.200.0/24'', GatewayID_v1 = ''gw'',
      GatewayIP_v1 = ''192.168.200.1'', PublicIP_net_v1 = ''203.0.113.7''\<rparr>"

definition networkTwo :: ClusterNetworkV2 where
  "networkTwo =
     \<lparr>NetworkID_v2 = ''net-1'', CIDR_v2 = ''192.168.200.0/24'', GatewayID_v2 = ''gw'',
      GatewayIP_v2 = ''192.168.200.1'', SecondaryGatewayID_v2 = [], SecondaryGatewayIP_v2 = [],
      PrimaryPublicIP_v2 = ''203.0.113.7'', SecondaryPublicIP_v2 = [],
      DefaultRouteIP_v2 = ''192.168.200.1'', EndpointIP_v2 = ''203.0.113.7'', Domain_v2 = []\<rparr>"

definition clusterIn :: "clusterstate \<Rightarrow> cluster" where
  "clusterIn st =
     \<lparr>name = ''c1'',
      props = \<lparr>NodesV1 = None, NodesV2 = Some threeNodes, NetworkV1 = None,
               NetworkV2 = Some networkTwo, NetworkV3 = Some (networkV2_to_networkV3 networkTwo),
               StateV1 = \<lparr>State = st, StateCollectInterval = 0\<rparr>\<rparr>,
      makers = bohMakers, service = okService,
      installReverseProxy = None, installRemoteDesktop = None\<rparr>"

definition legacyCluster :: cluster where
  "legacyCluster =
     \<lparr>name = ''old'',
      props = \<lparr>NodesV1 = Some legacyNodes, NodesV2 = None, NetworkV1 = Some legacyNetwork,
               NetworkV2 = None, NetworkV3 = None,
               StateV1 = \<lparr>State = Nominal, StateCollectInterval = 0\<rparr>\<rparr>,
      makers = bohMakers, service = okService,
      installReverseProxy = None, installRemoteDesktop = None\<rparr>"

definition networkTwoCluster :: cluster where
  "networkTwoCluster = (clusterIn Nominal)\<lparr>props := (props (clusterIn Nominal))\<lparr>NetworkV3 := None\<rparr>\<rparr>"

definition newHost :: "string \<Rightarrow> Host" where
  "newHost i =
     \<lparr>GetID = i, GetName = [], GetPublicIP = Inl (NotFoundError ''no public IP associated with Host''),
      GetPrivateIP = Inr ''10.0.0.9'', Create_answer = None, Delete_answer = None,
      installDocker = None, installProxyCacheClient = None, installNodeRequirements = None\<rparr>"

definition bareCluster :: cluster where
  "bareCluster = (clusterIn Nominal)\<lparr>makers := noMakers\<rparr>"

definition emptyCluster :: cluster where
  "emptyCluster = (clusterIn Nominal)\<lparr>props := (props (clusterIn Nominal))\<lparr>NodesV2 := None\<rparr>\<rparr>"

text \<open>A host on which the installation of the proxycache client fails.\<close>

definition brokenHost :: "string \<Rightarrow> Host" where
  "brokenHost i = (newHost i)\<lparr>installProxyCacheClient := Some (NewError ''ssh failure'')\<rparr>"

text \<open>A host whose private IP cannot be read, so that its registration fails.\<close>

definition unreadableHost :: "string \<Rightarrow> Host" where
  "unreadableHost i = (newHost i)\<lparr>GetPrivateIP := Inl InvalidInstanceError\<rparr>"

definition freshHosts :: "uint \<Rightarrow> Host" where
  "freshHosts i = newHost ''n9''"

definition exampleOps :: "create_op list" where
  "exampleOps =
     [CreateNode 1 True (newHost ''n4''), CreateMaster 1 True (newHost ''m2''),
      CreateNode 2 True (brokenHost ''n5''), CreateNode 3 True (newHost ''n6'')]"

definition exampleSteps :: "alter_step list" where
  "exampleSteps =
     [NextIndex Node, NextIndex Master, RegisterMaster (newHost ''m2''), NextIndex Node,
      RegisterNode (unreadableHost ''n4''), RegisterNode (newHost ''n5'')]"

section \<open>Verified properties\<close>

subsection \<open>Upgrade of the Nodes property\<close>

lemma upgraded_Cons:
  "upgraded g (x # xs) =
     \<lparr>ID = ID_v1 x, NumericalID = g + 1, Name = Name_v1 x, PrivateIP = PrivateIP_v1 x,
      PublicIP = PublicIP_v1 x\<rparr> # upgraded (g + 1) xs"
  by (simp add: upgraded_def enumerate_Suc_eq case_prod_unfold comp_def add.assoc)

lemma length_upgraded: "length (upgraded g xs) = length xs"
  by (simp add: upgraded_def)

lemma foldl_upgradeMaster:
  "foldl upgradeMaster n xs =
     n\<lparr>GlobalLastIndex := GlobalLastIndex n + of_nat (length xs),
       Masters := Masters n @ upgraded (GlobalLastIndex n) xs\<rparr>"
proof (induction xs arbitrary: n)
  case Nil
  then show ?case by (simp add: upgraded_def)
next
  case (Cons x xs)
  show ?case
    by (simp add: Cons.IH upgraded_Cons) (simp add: upgradeMaster_def Let_def add.assoc)
qed

lemma foldl_upgradePrivateNode:
  "foldl upgradePrivateNode n xs =
     n\<lparr>GlobalLastIndex := GlobalLastIndex n + of_nat (length xs),
       PrivateNodes := PrivateNodes n @ upgraded (GlobalLastIndex n) xs\<rparr>"
proof (induction xs arbitrary: n)
  case Nil
  then show ?case by (simp add: upgraded_def)
next
  case (Cons x xs)
  show ?case
    by (simp add: Cons.IH upgraded_Cons) (simp add: upgradePrivateNode_def Let_def add.assoc)
qed

lemma identity_upgraded: "map node_identity (upgraded g xs) = map node_identity_v1 xs"
proof (induction xs arbitrary: g)
  case Nil
  then show ?case by (simp add: upgraded_def)
next
  case (Cons x xs)
  then show ?case
    by (simp add: upgraded_Cons node_identity_def node_identity_v1_def)
qed

lemma numericalID_upgraded:
  "map NumericalID (upgraded g xs) = map (\<lambda>k. g + of_nat (Suc k)) [0..<length xs]"
proof -
  have "map NumericalID (upgraded g xs) =
      map ((\<lambda>k. g + of_nat (Suc k)) \<circ> fst) (enumerate 0 xs)"
    by (simp add: upgraded_def case_prod_unfold comp_def)
  also have "\<dots> = map (\<lambda>k. g + of_nat (Suc k)) (map fst (enumerate 0 xs))"
    by (simp only: map_map)
  also have "\<dots> = map (\<lambda>k. g + of_nat (Suc k)) [0..<length xs]"
    by (simp only: map_fst_enumerate add_0)
  finally show ?thesis .
qed

lemma nodes_upgrade_payload:
  "nodesV1_to_nodesV2 v1 zeroClusterNodes =
     \<lparr>Masters = upgraded 0 (Masters_v1 v1),
      PrivateNodes = upgraded (of_nat (length (Masters_v1 v1))) (PrivateNodes_v1 v1),
      MasterLastIndex = MasterLastIndex_v1 v1,
      PrivateLastIndex = PrivateLastIndex_v1 v1,
      GlobalLastIndex = of_nat (length (Masters_v1 v1) + length (PrivateNodes_v1 v1))\<rparr>"
  by (simp add: nodesV1_to_nodesV2_def Let_def foldl_upgradeMaster foldl_upgradePrivateNode
      zeroClusterNodes_def)

lemma upt_split: "[0..<m + p] = [0..<m] @ map (\<lambda>k. m + k) [0..<p]"
proof -
  have "[0..<m + p] = [0..<m] @ [m..<m + p]"
    by (rule upt_add_eq_append) simp
  moreover have "map (\<lambda>k. k + m) [0..<p] = [m..<p + m]"
    by (rule map_add_upt)
  ultimately show ?thesis by (simp add: add.commute)
qed

text \<open>
  Claim C7. On load, when the Nodes v2 property is absent, \<open>updateNodesPropertyIfNeeded\<close>
  succeeds and stores a v2 property in which the masters and the private nodes carry
  the id, name, private IP and public IP of the v1 entries, list by list and in the
  same order; the numerical IDs are 1, 2, ... along the masters and then the private
  nodes; \<open>masterLastIndex\<close> and \<open>privateLastIndex\<close> are those of v1; nothing else of the
  cluster changes. When the v2 property is present the upgrade changes nothing, and
  running the upgrade a second time changes nothing.
\<close>

theorem nodes_upgrade:
  "(NodesV2 (props c) = None \<longrightarrow>
      (\<exists>v2. updateNodesPropertyIfNeeded c = (None, c\<lparr>props := (props c)\<lparr>NodesV2 := Some v2\<rparr>\<rparr>) \<and>
        map node_identity (Masters v2) =
          map node_identity_v1 (Masters_v1 (payload zeroClusterNodesV1 (NodesV1 (props c)))) \<and>
        map node_identity (PrivateNodes v2) =
          map node_identity_v1 (PrivateNodes_v1 (payload zeroClusterNodesV1 (NodesV1 (props c)))) \<and>
        map NumericalID (Masters v2 @ PrivateNodes v2) =
          map (\<lambda>k. of_nat (Suc k)) [0..<length (Masters v2) + length (PrivateNodes v2)] \<and>
        MasterLastIndex v2 = MasterLastIndex_v1 (payload zeroClusterNodesV1 (NodesV1 (props c))) \<and>
        PrivateLastIndex v2 = PrivateLastIndex_v1 (payload zeroClusterNodesV1 (NodesV1 (props c))))) \<and>
   (NodesV2 (props c) \<noteq> None \<longrightarrow> updateNodesPropertyIfNeeded c = (None, c)) \<and>
   updateNodesPropertyIfNeeded (snd (updateNodesPropertyIfNeeded c)) =
     (None, snd (updateNodesPropertyIfNeeded c))"
proof -
  let ?v1 = "payload zeroClusterNodesV1 (NodesV1 (props c))"
  let ?v2 = "nodesV1_to_nodesV2 ?v1 zeroClusterNodes"
  have present: "updateNodesPropertyIfNeeded d = (None, d)" if "NodesV2 (props d) \<noteq> None" for d
    using that by (simp add: updateNodesPropertyIfNeeded_def Alter_def Lookup_def)
  have absent: "updateNodesPropertyIfNeeded c = (None, c\<lparr>props := (props c)\<lparr>NodesV2 := Some ?v2\<rparr>\<rparr>)"
    if "NodesV2 (props c) = None"
    using that by (simp add: updateNodesPropertyIfNeeded_def Alter_def Lookup_def payload_def Let_def)
  have ids: "map NumericalID (Masters ?v2 @ PrivateNodes ?v2) =
      map (\<lambda>k. of_nat (Suc k)) [0..<length (Masters ?v2) + length (PrivateNodes ?v2)]"
    by (simp add: nodes_upgrade_payload numericalID_upgraded length_upgraded upt_split comp_def
        add.assoc)
  have idem: "updateNodesPropertyIfNeeded (snd (updateNodesPropertyIfNeeded c)) =
     (None, snd (updateNodesPropertyIfNeeded c))"
  proof (cases "NodesV2 (props c)")
    case None
    then show ?thesis by (simp add: absent present)
  next
    case (Some a)
    then show ?thesis by (simp add: present)
  qed
  show ?thesis
    using absent ids idem present
    by (auto simp: nodes_upgrade_payload identity_upgraded simp del: upt_Suc)
qed

theorem nodes_upgrade_witness:
  "NodesV2 (props legacyCluster) = None \<and>
   NodesV2 (props (clusterIn Nominal)) \<noteq> None \<and>
   (\<exists>v2. updateNodesPropertyIfNeeded legacyCluster =
           (None, legacyCluster\<lparr>props := (props legacyCluster)\<lparr>NodesV2 := Some v2\<rparr>\<rparr>) \<and>
         map NumericalID (Masters v2 @ PrivateNodes v2) = [1, 2, 3] \<and>
         map ID (Masters v2) = [''m1''] \<and> map ID (PrivateNodes v2) = [''n1'', ''n2'']) \<and>
   updateNodesPropertyIfNeeded (clusterIn Nominal) = (None, clusterIn Nominal)"
proof -
  have a: "NodesV2 (props legacyCluster) = None"
    by (simp add: legacyCluster_def)
  have b: "NodesV2 (props (clusterIn Nominal)) \<noteq> None"
    by (simp add: clusterIn_def)
  have v1: "payload zeroClusterNodesV1 (NodesV1 (props legacyCluster)) = legacyNodes"
    by (simp add: legacyCluster_def payload_def)
  from nodes_upgrade [of legacyCluster] a obtain v2 where
    r: "updateNodesPropertyIfNeeded legacyCluster =
          (None, legacyCluster\<lparr>props := (props legacyCluster)\<lparr>NodesV2 := Some v2\<rparr>\<rparr>)"
    and m: "map node_identity (Masters v2) = map node_identity_v1 (Masters_v1 legacyNodes)"
    and n: "map node_identity (PrivateNodes v2) = map node_identity_v1 (PrivateNodes_v1 legacyNodes)"
    and i: "map NumericalID (Masters v2 @ PrivateNodes v2) =
          map (\<lambda>k. of_nat (Suc k)) [0..<length (Masters v2) + length (PrivateNodes v2)]"
    unfolding v1 by blast
  have lm: "length (Masters v2) = 1"
    using arg_cong [OF m, of length] by (simp add: legacyNodes_def)
  have ln: "length (PrivateNodes v2) = 2"
    using arg_cong [OF n, of length] by (simp add: legacyNodes_def)
  have ids: "map NumericalID (Masters v2 @ PrivateNodes v2) = [1, 2, 3]"
    unfolding i lm ln by (simp add: upt_rec)
  have "map (fst \<circ> node_identity) (Masters v2) = map (fst \<circ> node_identity_v1) (Masters_v1 legacyNodes)"
    using arg_cong [OF m, of "map fst"] by simp
  then have im: "map ID (Masters v2) = [''m1'']"
    by (simp add: comp_def node_identity_def node_identity_v1_def legacyNodes_def nodeV1_def)
  have "map (fst \<circ> node_identity) (PrivateNodes v2) =
      map (fst \<circ> node_identity_v1) (PrivateNodes_v1 legacyNodes)"
    using arg_cong [OF n, of "map fst"] by simp
  then have inn: "map ID (PrivateNodes v2) = [''n1'', ''n2'']"
    by (simp add: comp_def node_identity_def node_identity_v1_def legacyNodes_def nodeV1_def)
  from nodes_upgrade [of "clusterIn Nominal"] b
  have c: "updateNodesPropertyIfNeeded (clusterIn Nominal) = (None, clusterIn Nominal)"
    by blast
  have "\<exists>v2. updateNodesPropertyIfNeeded legacyCluster =
           (None, legacyCluster\<lparr>props := (props legacyCluster)\<lparr>NodesV2 := Some v2\<rparr>\<rparr>) \<and>
         map NumericalID (Masters v2 @ PrivateNodes v2) = [1, 2, 3] \<and>
         map ID (Masters v2) = [''m1''] \<and> map ID (PrivateNodes v2) = [''n1'', ''n2'']"
    using r ids im inn by (intro exI [of _ v2] conjI)
  with a b c show ?thesis by (intro conjI)
qed

subsection \<open>Upgrade of the Network property\<close>

text \<open>
  Claim C8. On load, when the Network v3 property is absent: from a v2 property the
  upgrade stores a v3 property whose subnet ID is the v2 network ID and whose network
  ID is empty, the CIDR, the gateway and secondary gateway IDs and IPs, the public IPs,
  the default route IP, the endpoint IP and the domain being carried over; from a v1
  property (no v2) it stores a v3 property whose subnet ID is the v1 network ID, whose
  default route IP is the v1 gateway IP, whose endpoint IP is the v1 public IP and whose
  network ID is empty.
\<close>

theorem network_upgrade:
  "(NetworkV3 (props c) = None \<and> NetworkV2 (props c) = Some v2 \<longrightarrow>
      (\<exists>v3. updateNetworkPropertyIfNeeded c = (None, c\<lparr>props := (props c)\<lparr>NetworkV3 := Some v3\<rparr>\<rparr>) \<and>
        SubnetID v3 = NetworkID_v2 v2 \<and> NetworkID v3 = [] \<and> CIDR v3 = CIDR_v2 v2 \<and>
        GatewayID v3 = GatewayID_v2 v2 \<and> GatewayIP v3 = GatewayIP_v2 v2 \<and>
        SecondaryGatewayID v3 = SecondaryGatewayID_v2 v2 \<and>
        SecondaryGatewayIP v3 = SecondaryGatewayIP_v2 v2 \<and>
        PrimaryPublicIP v3 = PrimaryPublicIP_v2 v2 \<and>
        SecondaryPublicIP v3 = SecondaryPublicIP_v2 v2 \<and>
        DefaultRouteIP v3 = DefaultRouteIP_v2 v2 \<and> EndpointIP v3 = EndpointIP_v2 v2 \<and>
        Domain v3 = Domain_v2 v2)) \<and>
   (NetworkV3 (props c) = None \<and> NetworkV2 (props c) = None \<and> NetworkV1 (props c) = Some v1 \<longrightarrow>
      (\<exists>v3. updateNetworkPropertyIfNeeded c = (None, c\<lparr>props := (props c)\<lparr>NetworkV3 := Some v3\<rparr>\<rparr>) \<and>
        SubnetID v3 = NetworkID_v1 v1 \<and> DefaultRouteIP v3 = GatewayIP_v1 v1 \<and>
        EndpointIP v3 = PublicIP_net_v1 v1 \<and> NetworkID v3 = []))"
proof (intro conjI impI)
  assume "NetworkV3 (props c) = None \<and> NetworkV2 (props c) = Some v2"
  then have "updateNetworkPropertyIfNeeded c =
      (None, c\<lparr>props := (props c)\<lparr>NetworkV3 := Some (networkV2_to_networkV3 v2)\<rparr>\<rparr>)"
    by (simp add: updateNetworkPropertyIfNeeded_def Alter_def Lookup_def payload_def Let_def)
  then show "\<exists>v3. updateNetworkPropertyIfNeeded c = (None, c\<lparr>props := (props c)\<lparr>NetworkV3 := Some v3\<rparr>\<rparr>) \<and>
        SubnetID v3 = NetworkID_v2 v2 \<and> NetworkID v3 = [] \<and> CIDR v3 = CIDR_v2 v2 \<and>
        GatewayID v3 = GatewayID_v2 v2 \<and> GatewayIP v3 = GatewayIP_v2 v2 \<and>
        SecondaryGatewayID v3 = SecondaryGatewayID_v2 v2 \<and>
        SecondaryGatewayIP v3 = SecondaryGatewayIP_v2 v2 \<and>
        PrimaryPublicIP v3 = PrimaryPublicIP_v2 v2 \<and>
        SecondaryPublicIP v3 = SecondaryPublicIP_v2 v2 \<and>
        DefaultRouteIP v3 = DefaultRouteIP_v2 v2 \<and> EndpointIP v3 = EndpointIP_v2 v2 \<and>
        Domain v3 = Domain_v2 v2"
    by (intro exI [of _ "networkV2_to_networkV3 v2"]) (simp add: networkV2_to_networkV3_def)
next
  assume "NetworkV3 (props c) = None \<and> NetworkV2 (props c) = None \<and> NetworkV1 (props c) = Some v1"
  then have "updateNetworkPropertyIfNeeded c =
      (None, c\<lparr>props := (props c)\<lparr>NetworkV3 := Some (networkV1_to_networkV3 v1)\<rparr>\<rparr>)"
    by (simp add: updateNetworkPropertyIfNeeded_def Alter_def Lookup_def payload_def Let_def)
  then show "\<exists>v3. updateNetworkPropertyIfNeeded c = (None, c\<lparr>props := (props c)\<lparr>NetworkV3 := Some v3\<rparr>\<rparr>) \<and>
        SubnetID v3 = NetworkID_v1 v1 \<and> DefaultRouteIP v3 = GatewayIP_v1 v1 \<and>
        EndpointIP v3 = PublicIP_net_v1 v1 \<and> NetworkID v3 = []"
    by (intro exI [of _ "networkV1_to_networkV3 v1"])
      (simp add: networkV1_to_networkV3_def zeroClusterNetwork_def)
qed

theorem network_upgrade_witness:
  "NetworkV3 (props networkTwoCluster) = None \<and> NetworkV2 (props networkTwoCluster) = Some networkTwo \<and>
   NetworkV3 (props legacyCluster) = None \<and> NetworkV2 (props legacyCluster) = None \<and>
   NetworkV1 (props legacyCluster) = Some legacyNetwork \<and>
   (\<exists>v3. updateNetworkPropertyIfNeeded networkTwoCluster =
           (None, networkTwoCluster\<lparr>props := (props networkTwoCluster)\<lparr>NetworkV3 := Some v3\<rparr>\<rparr>) \<and>
         SubnetID v3 = ''net-1'' \<and> NetworkID v3 = []) \<and>
   (\<exists>v3. updateNetworkPropertyIfNeeded legacyCluster =
           (None, legacyCluster\<lparr>props := (props legacyCluster)\<lparr>NetworkV3 := Some v3\<rparr>\<rparr>) \<and>
         SubnetID v3 = ''net-1'' \<and> DefaultRouteIP v3 = ''192.168.200.1'' \<and>
         EndpointIP v3 = ''203.0.113.7'' \<and> NetworkID v3 = [])"
proof -
  have a: "NetworkV3 (props networkTwoCluster) = None \<and>
      NetworkV2 (props networkTwoCluster) = Some networkTwo"
    by (simp add: networkTwoCluster_def clusterIn_def)
  have b: "NetworkV3 (props legacyCluster) = None \<and> NetworkV2 (props legacyCluster) = None \<and>
      NetworkV1 (props legacyCluster) = Some legacyNetwork"
    by (simp add: legacyCluster_def)
  from network_upgrade [of networkTwoCluster networkTwo legacyNetwork] a
  have c: "\<exists>v3. updateNetworkPropertyIfNeeded networkTwoCluster =
           (None, networkTwoCluster\<lparr>props := (props networkTwoCluster)\<lparr>NetworkV3 := Some v3\<rparr>\<rparr>) \<and>
         SubnetID v3 = ''net-1'' \<and> NetworkID v3 = []"
    by (auto simp: networkTwo_def)
  from network_upgrade [of legacyCluster networkTwo legacyNetwork] b
  have d: "\<exists>v3. updateNetworkPropertyIfNeeded legacyCluster =
           (None, legacyCluster\<lparr>props := (props legacyCluster)\<lparr>NetworkV3 := Some v3\<rparr>\<rparr>) \<and>
         SubnetID v3 = ''net-1'' \<and> DefaultRouteIP v3 = ''192.168.200.1'' \<and>
         EndpointIP v3 = ''203.0.113.7'' \<and> NetworkID v3 = []"
    by (auto simp: legacyNetwork_def)
  from a b c d show ?thesis by (intro conjI) simp_all
qed

subsection \<open>DeleteLastNode\<close>

text \<open>
  Claim C10. In \<open>DeleteLastNode\<close> the guard that answers NotFound ("failed to find last
  node") when no node was selected is unreachable: when the list of private nodes is
  not empty the mutator selects its last entry, and when it is empty the index
  \<open>len - 1\<close> is out of range and the mutator panics; it never returns without a node.
  So \<open>DeleteLastNode\<close> is the same function with the guard removed.
\<close>

theorem DeleteLastNode_guard_unreachable:
  "(PrivateNodes nodesV2 \<noteq> [] \<longrightarrow>
      selectLastNode nodesV2 = Inr (Some (last (PrivateNodes nodesV2)))) \<and>
   (PrivateNodes nodesV2 = [] \<longrightarrow>
      selectLastNode nodesV2 = Inl (RuntimePanic ''index out of range'')) \<and>
   selectLastNode nodesV2 \<noteq> Inr None \<and>
   DeleteLastNode c FindAvailableMaster LoadHost =
     (case selectLastNode (payload zeroClusterNodes (NodesV2 (props c))) of
        Inl xerr \<Rightarrow> (Inl xerr, c)
      | Inr n \<Rightarrow>
          (case FindAvailableMaster of
             Inl xerr \<Rightarrow> (Inl xerr, c)
           | Inr selectedMaster \<Rightarrow>
               (case LoadHost (ID (the n)) of
                  Inl xerr \<Rightarrow> (Inl xerr, c)
                | Inr rh \<Rightarrow>
                    (case deleteNode c rh selectedMaster of
                       (Some xerr, c') \<Rightarrow> (Inl xerr, c')
                     | (None, c') \<Rightarrow> (Inr (the n), c')))))"
proof -
  have sel: "selectLastNode n =
      (if PrivateNodes n = [] then Inl (RuntimePanic ''index out of range'')
       else Inr (Some (last (PrivateNodes n))))" for n
  proof (cases "PrivateNodes n = []")
    case True
    then show ?thesis by (simp add: selectLastNode_def)
  next
    case False
    then have "0 < length (PrivateNodes n)" by simp
    then have "nat (int (length (PrivateNodes n)) - 1) = length (PrivateNodes n) - 1"
      by simp
    with False show ?thesis
      by (simp add: selectLastNode_def Let_def last_conv_nth)
  qed
  have "selectLastNode nodesV2 \<noteq> Inr None"
    by (simp add: sel)
  moreover have "DeleteLastNode c FindAvailableMaster LoadHost =
     (case selectLastNode (payload zeroClusterNodes (NodesV2 (props c))) of
        Inl xerr \<Rightarrow> (Inl xerr, c)
      | Inr n \<Rightarrow>
          (case FindAvailableMaster of
             Inl xerr \<Rightarrow> (Inl xerr, c)
           | Inr selectedMaster \<Rightarrow>
               (case LoadHost (ID (the n)) of
                  Inl xerr \<Rightarrow> (Inl xerr, c)
                | Inr rh \<Rightarrow>
                    (case deleteNode c rh selectedMaster of
                       (Some xerr, c') \<Rightarrow> (Inl xerr, c')
                     | (None, c') \<Rightarrow> (Inr (the n), c')))))"
    by (simp add: DeleteLastNode_def sel split: sum.split prod.split option.split)
  ultimately show ?thesis by (simp add: sel)
qed

theorem DeleteLastNode_guard_unreachable_witness:
  "PrivateNodes threeNodes \<noteq> [] \<and>
   selectLastNode threeNodes = Inr (Some (node ''n3'' 4)) \<and>
   PrivateNodes zeroClusterNodes = [] \<and>
   selectLastNode zeroClusterNodes = Inl (RuntimePanic ''index out of range'') \<and>
   fst (DeleteLastNode emptyCluster (Inr (newHost ''m1'')) (\<lambda>i. Inr (newHost i))) =
     Inl (RuntimePanic ''index out of range'')"
proof -
  have a: "PrivateNodes threeNodes \<noteq> []"
    by (simp add: threeNodes_def)
  have b: "PrivateNodes zeroClusterNodes = []"
    by (simp add: zeroClusterNodes_def)
  have c: "selectLastNode threeNodes = Inr (Some (node ''n3'' 4))"
    using DeleteLastNode_guard_unreachable [of threeNodes] a by (simp add: threeNodes_def)
  have d: "selectLastNode zeroClusterNodes = Inl (RuntimePanic ''index out of range'')"
    using DeleteLastNode_guard_unreachable [of zeroClusterNodes] b by simp
  have e: "payload zeroClusterNodes (NodesV2 (props emptyCluster)) = zeroClusterNodes"
    by (simp add: emptyCluster_def payload_def)
  have "fst (DeleteLastNode emptyCluster (Inr (newHost ''m1'')) (\<lambda>i. Inr (newHost i))) =
     Inl (RuntimePanic ''index out of range'')"
    using DeleteLastNode_guard_unreachable
      [of zeroClusterNodes emptyCluster "Inr (newHost ''m1'')" "\<lambda>i. Inr (newHost i)"]
    by (simp add: e d)
  with a b c d show ?thesis by (intro conjI)
qed

subsection \<open>Shrink\<close>

text \<open>
  What the first mutator of \<open>Shrink\<close> computes when it does not fail (a Go slice
  holds fewer than \<open>2 ^ 63\<close> entries): the nodes to remove are the last \<open>count\<close>
  entries, the list kept is one entry shorter than the rest, and \<open>count\<close> is smaller
  than the number of nodes.
\<close>

lemma Shrink_reserve_keeps:
  assumes "Shrink_reserve count nodesV2 = Inr (toRemove, kept)"
    and "length (PrivateNodes nodesV2) < 2 ^ 63"
  shows "toRemove = drop (length (PrivateNodes nodesV2) - unat count) (PrivateNodes nodesV2)"
    and "PrivateNodes kept =
      take (length (PrivateNodes nodesV2) - unat count - 1) (PrivateNodes nodesV2)"
    and "unat count < length (PrivateNodes nodesV2)"
proof -
  let ?n = "length (PrivateNodes nodesV2)"
  let ?len = "of_nat ?n :: uint"
  have small: "?n < 2 ^ 64"
    using assms(2) by simp
  have len: "unat ?len = ?n"
    using small by (simp add: unat_of_nat)
  from assms(1) have le: "count \<le> ?len"
    by (simp add: Shrink_reserve_def Let_def split: if_splits)
  then have cn: "unat count \<le> ?n"
    using len by (simp add: word_le_nat_alt)
  have first: "unat (?len - count) = ?n - unat count"
    using le len by (simp add: unat_sub)
  from assms(1) have nopanic: "\<not> ?n < unat (?len - count - 1)"
    by (simp add: Shrink_reserve_def Let_def split: if_splits)
  have pos: "?len - count \<noteq> 0"
  proof
    assume z: "?len - count = 0"
    then have "unat (?len - count - 1) = 2 ^ 64 - 1"
      by (simp add: unsigned_minus_1_eq_mask mask_eq_exp_minus_1)
    with nopanic assms(2) show False by simp
  qed
  then have minus1: "unat (?len - count - 1) = ?n - unat count - 1"
    using first by (simp add: unat_minus_one)
  from pos first have "?n - unat count \<noteq> 0"
    using unat_gt_0 [of "?len - count"] by simp
  then show "unat count < ?n" by simp
  from assms(1) le nopanic show "toRemove = drop (?n - unat count) (PrivateNodes nodesV2)"
    by (simp add: Shrink_reserve_def Let_def first split: if_splits)
  from assms(1) le nopanic show "PrivateNodes kept = take (?n - unat count - 1) (PrivateNodes nodesV2)"
    by (auto simp add: Shrink_reserve_def Let_def minus1 split: if_splits)
qed

text \<open>
  Claim C2, evaluated on the code: on a cluster with the private nodes n1, n2, n3,
  \<open>Shrink\<close> by 1 reserves n3 but keeps only n1 in the metadata (n2 is dropped without
  being deleted); putting the reserved nodes back after a failed deletion gives n1, n3
  and not the original list; and \<open>Shrink\<close> by 3 panics on the slice bound instead of
  removing all three nodes.
\<close>

theorem Shrink_off_by_one:
  "Shrink_reserve 1 threeNodes =
     Inr ([node ''n3'' 4], threeNodes\<lparr>PrivateNodes := [node ''n1'' 2]\<rparr>) \<and>
   Shrink_restore [node ''n3'' 4] (threeNodes\<lparr>PrivateNodes := [node ''n1'' 2]\<rparr>) =
     threeNodes\<lparr>PrivateNodes := [node ''n1'' 2, node ''n3'' 4]\<rparr> \<and>
   PrivateNodes threeNodes = [node ''n1'' 2, node ''n2'' 3, node ''n3'' 4] \<and>
   Shrink_reserve 3 threeNodes = Inl (RuntimePanic ''slice bounds out of range'')"
  by (simp add: Shrink_reserve_def Shrink_restore_def threeNodes_def Let_def
      unsigned_minus_1_eq_mask mask_eq_exp_minus_1)

subsection \<open>Creation of zero nodes\<close>

text \<open>
  Claim C9 fails as stated: \<open>AddNodes\<close> and \<open>taskCreateNodes\<close> called with a count of 0
  do not return success.
\<close>

theorem zero_count_counterexample:
  "fst (AddNodes (clusterIn Nominal) 0 freshHosts) =
     Inl (InvalidParameterError ''count'' ''must be an int > 0'') \<and>
   map_option fst (taskCreateNodes (clusterIn Nominal) 0 True freshHosts) =
     Some (Some (InvalidParameterError ''params.Count'' ''cannot be an integer less than 1''))"
  by (simp add: AddNodes_def taskCreateNodes_def)

text \<open>
  Claim C9, amended. Node creation invoked with a count of 0 returns (it does not run
  forever), fails with an invalid-parameter error and leaves the cluster, its metadata
  included, unchanged.
\<close>

theorem zero_count_rejected:
  "AddNodes c 0 env = (Inl (InvalidParameterError ''count'' ''must be an int > 0''), c) \<and>
   taskCreateNodes c 0 NoKeep env =
     Some (Some (InvalidParameterError ''params.Count'' ''cannot be an integer less than 1''), c)"
  by (simp add: AddNodes_def taskCreateNodes_def)

subsection \<open>Start and Stop\<close>

text \<open>The cluster after \<open>GetState\<close> has recorded the state the flavor reports.\<close>

lemma GetState_reported:
  assumes "GetState_hook (makers c) = Some hook" and "hook (view_of c) = Inr st"
  shows "GetState c = (Inr st, c\<lparr>props := (props c)\<lparr>StateV1 := (StateV1 (props c))\<lparr>State := st\<rparr>\<rparr>\<rparr>)"
  using assms by (simp add: GetState_def Alter_def setState_def)

lemma recorded_unchanged:
  "State (StateV1 (props c)) = st \<Longrightarrow>
     c\<lparr>props := (props c)\<lparr>StateV1 := (StateV1 (props c))\<lparr>State := st\<rparr>\<rparr>\<rparr> = c"
  by auto

lemma GetState_clusterIn: "GetState (clusterIn st) = (Inr st, clusterIn st)"
proof -
  have h: "GetState_hook (makers (clusterIn st)) = Some recordedState"
    by (simp add: clusterIn_def bohMakers_def)
  have r: "recordedState (view_of (clusterIn st)) = Inr st"
    by (simp add: recordedState_def view_of_def clusterIn_def)
  have "State (StateV1 (props (clusterIn st))) = st"
    by (simp add: clusterIn_def)
  then show ?thesis
    using GetState_reported [OF h r] by (simp add: recorded_unchanged)
qed

lemma stopHosts_okService:
  "stopHosts [''n1'', ''n2'', ''n3'', ''m1'', ''gw''] okService = ([], okService\<lparr>running := {}\<rparr>)"
  by (auto simp: StopHost_def okService_def)

lemma Stop_Nominal:
  "Stop (clusterIn Nominal) = (None, (clusterIn Stopped)\<lparr>service := okService\<lparr>running := {}\<rparr>\<rparr>)"
proof -
  have a: "Alter (clusterIn Nominal) (setState Stopping) = (Inr (), clusterIn Stopping)"
    by (simp add: Alter_def setState_def clusterIn_def)
  have n: "payload zeroClusterNodes (NodesV2 (props (clusterIn Stopping))) = threeNodes"
    by (simp add: clusterIn_def payload_def)
  have g: "gatewayIDs (props (clusterIn Stopping)) = (''gw'', [])"
    by (simp add: gatewayIDs_def clusterIn_def Lookup_def payload_def networkTwo_def)
  have ids: "map ID (PrivateNodes threeNodes) @ map ID (Masters threeNodes) @ [''gw''] =
      [''n1'', ''n2'', ''n3'', ''m1'', ''gw'']"
    by (simp add: threeNodes_def node_def)
  have stopped: "stopHosts (map ID (PrivateNodes threeNodes) @ map ID (Masters threeNodes) @ [''gw''])
      okService = ([], okService\<lparr>running := {}\<rparr>)"
    by (simp only: ids stopHosts_okService)
  have s: "service (clusterIn Stopping) = okService"
    by (simp add: clusterIn_def)
  have b: "Alter ((clusterIn Stopping)\<lparr>service := okService\<lparr>running := {}\<rparr>\<rparr>) (setState Stopped) =
      (Inr (), (clusterIn Stopped)\<lparr>service := okService\<lparr>running := {}\<rparr>\<rparr>)"
    by (simp add: Alter_def setState_def clusterIn_def)
  show ?thesis
    by (simp add: Stop_def GetState_clusterIn a n g s stopped b del: stopHosts.simps)
qed

text \<open>
  Claim C1, evaluated on the code. A cluster in state Nominal is stopped with success:
  its state is then Stopped and no host is running. \<open>Start\<close> on that stopped cluster
  returns success at once and changes nothing: the state stays Stopped, not Nominal,
  and no host is started. \<open>Start\<close> on the started cluster (state Nominal) does not
  return success but NotAvailable.
\<close>

theorem Start_after_Stop_stays_stopped:
  "fst (Stop (clusterIn Nominal)) = None \<and>
   stateOf (snd (Stop (clusterIn Nominal))) = Stopped \<and>
   running (service (snd (Stop (clusterIn Nominal)))) = {} \<and>
   Start (snd (Stop (clusterIn Nominal))) = (None, snd (Stop (clusterIn Nominal))) \<and>
   stateOf (snd (Start (snd (Stop (clusterIn Nominal))))) \<noteq> Nominal \<and>
   fst (Start (clusterIn Nominal)) =
     Some (NotAvailableError ''failed to start cluster because of it's current state'')"
proof -
  let ?s = "(clusterIn Stopped)\<lparr>service := okService\<lparr>running := {}\<rparr>\<rparr>"
  have h: "GetState_hook (makers ?s) = Some recordedState"
    by (simp add: clusterIn_def bohMakers_def)
  have r: "recordedState (view_of ?s) = Inr Stopped"
    by (simp add: recordedState_def view_of_def clusterIn_def)
  have "State (StateV1 (props ?s)) = Stopped"
    by (simp add: clusterIn_def)
  then have g: "GetState ?s = (Inr Stopped, ?s)"
    using GetState_reported [OF h r] by (simp add: recorded_unchanged)
  have start: "Start ?s = (None, ?s)"
    by (simp add: Start_def g)
  have st: "stateOf ?s = Stopped"
    by (simp add: stateOf_def clusterIn_def)
  have again: "fst (Start (clusterIn Nominal)) =
     Some (NotAvailableError ''failed to start cluster because of it's current state'')"
    by (simp add: Start_def GetState_clusterIn)
  show ?thesis
    by (simp add: Stop_Nominal start st again)
qed

text \<open>
  Claim C3 fails as stated: \<open>Stop\<close> on a cluster that is being created, a transition the
  state machine does not have, does not return success.
\<close>

theorem illegal_transition_counterexample:
  "fst (Stop (clusterIn Creating)) =
     Some (NotAvailableError ''failed to stop cluster because of it's current state'')"
  by (simp add: Stop_def GetState_clusterIn)

text \<open>
  Claim C3, amended. Let \<open>st\<close> be the current state, as the flavor reports it to
  \<open>GetState\<close>. \<open>Stop\<close> when the state is Stopped is a no-op that returns success.
  \<open>Stop\<close> when the state is Unknown, Creating, Starting or Removed, and \<open>Start\<close> when the
  state is Unknown, Creating or Removed, fail with NotAvailable. In all these cases the
  cluster is left as it was, but for the State property holding \<open>st\<close>; when the State
  property already held \<open>st\<close>, nothing at all has changed.
\<close>

theorem illegal_transitions:
  assumes "GetState_hook (makers c) = Some hook" and "hook (view_of c) = Inr st"
  shows "(st = Stopped \<longrightarrow>
            Stop c = (None, c\<lparr>props := (props c)\<lparr>StateV1 := (StateV1 (props c))\<lparr>State := st\<rparr>\<rparr>\<rparr>)) \<and>
         (st \<in> {Unknown, Creating, Starting, Removed} \<longrightarrow>
            Stop c = (Some (NotAvailableError ''failed to stop cluster because of it's current state''),
                      c\<lparr>props := (props c)\<lparr>StateV1 := (StateV1 (props c))\<lparr>State := st\<rparr>\<rparr>\<rparr>)) \<and>
         (st \<in> {Unknown, Creating, Removed} \<longrightarrow>
            Start c = (Some (NotAvailableError ''failed to start cluster because of it's current state''),
                       c\<lparr>props := (props c)\<lparr>StateV1 := (StateV1 (props c))\<lparr>State := st\<rparr>\<rparr>\<rparr>)) \<and>
         (stateOf c = st \<longrightarrow>
            c\<lparr>props := (props c)\<lparr>StateV1 := (StateV1 (props c))\<lparr>State := st\<rparr>\<rparr>\<rparr> = c)"
proof (intro conjI impI)
  assume "st = Stopped"
  then show "Stop c = (None, c\<lparr>props := (props c)\<lparr>StateV1 := (StateV1 (props c))\<lparr>State := st\<rparr>\<rparr>\<rparr>)"
    by (simp add: Stop_def GetState_reported [OF assms])
next
  assume "st \<in> {Unknown, Creating, Starting, Removed}"
  then show "Stop c = (Some (NotAvailableError ''failed to stop cluster because of it's current state''),
      c\<lparr>props := (props c)\<lparr>StateV1 := (StateV1 (props c))\<lparr>State := st\<rparr>\<rparr>\<rparr>)"
    by (auto simp: Stop_def GetState_reported [OF assms])
next
  assume "st \<in> {Unknown, Creating, Removed}"
  then show "Start c = (Some (NotAvailableError ''failed to start cluster because of it's current state''),
      c\<lparr>props := (props c)\<lparr>StateV1 := (StateV1 (props c))\<lparr>State := st\<rparr>\<rparr>\<rparr>)"
    by (auto simp: Start_def GetState_reported [OF assms])
next
  assume "stateOf c = st"
  then show "c\<lparr>props := (props c)\<lparr>StateV1 := (StateV1 (props c))\<lparr>State := st\<rparr>\<rparr>\<rparr> = c"
    by (simp add: stateOf_def recorded_unchanged)
qed

theorem illegal_transitions_witness:
  "GetState_hook (makers (clusterIn Stopped)) = Some recordedState \<and>
   recordedState (view_of (clusterIn Stopped)) = Inr Stopped \<and>
   GetState_hook (makers (clusterIn Creating)) = Some recordedState \<and>
   recordedState (view_of (clusterIn Creating)) = Inr Creating \<and>
   Stop (clusterIn Stopped) = (None, clusterIn Stopped) \<and>
   Stop (clusterIn Creating) =
     (Some (NotAvailableError ''failed to stop cluster because of it's current state''),
      clusterIn Creating) \<and>
   Start (clusterIn Creating) =
     (Some (NotAvailableError ''failed to start cluster because of it's current state''),
      clusterIn Creating)"
proof -
  have h: "GetState_hook (makers (clusterIn st)) = Some recordedState" for st
    by (simp add: clusterIn_def bohMakers_def)
  have r: "recordedState (view_of (clusterIn st)) = Inr st" for st
    by (simp add: recordedState_def view_of_def clusterIn_def)
  have s: "stateOf (clusterIn st) = st" for st
    by (simp add: stateOf_def clusterIn_def)
  have a: "Stop (clusterIn Stopped) = (None, clusterIn Stopped)"
    using illegal_transitions [OF h r, of Stopped] s [of Stopped] by simp
  have b: "Stop (clusterIn Creating) =
     (Some (NotAvailableError ''failed to stop cluster because of it's current state''),
      clusterIn Creating)"
    using illegal_transitions [OF h r, of Creating] s [of Creating] by simp
  have c: "Start (clusterIn Creating) =
     (Some (NotAvailableError ''failed to start cluster because of it's current state''),
      clusterIn Creating)"
    using illegal_transitions [OF h r, of Creating] s [of Creating] by simp
  from h [of Stopped] r [of Stopped] h [of Creating] r [of Creating] a b c
  show ?thesis by (intro conjI)
qed

subsection \<open>Absent flavor hooks\<close>

text \<open>
  Two hooks are guarded by the test of another hook. \<open>taskConfigureMaster\<close> tests
  \<open>ConfigureNode\<close> and calls \<open>ConfigureMaster\<close>: a flavor with the former and without the
  latter makes the call go through a nil function value, and a flavor with only the
  latter never has it called. \<open>joinNodesFromList\<close> tests \<open>JoinMasterToCluster\<close> and calls
  \<open>JoinNodeToCluster\<close>.
\<close>

lemma taskConfigureMaster_tests_ConfigureNode:
  assumes "\<not> index < 1" and "installDocker host = None"
  shows "ConfigureNode (makers c) = Some h \<Longrightarrow> ConfigureMaster (makers c) = None \<Longrightarrow>
           taskConfigureMaster c index host = Some nilDereference"
    and "ConfigureNode (makers c) = None \<Longrightarrow> taskConfigureMaster c index host = None"
  using assms by (simp_all add: taskConfigureMaster_def)

lemma joinNodesFromList_tests_JoinMasterToCluster:
  assumes "JoinNodeToCluster (makers c) = None" and "ConfigureCluster (makers c) = None"
    and "JoinMasterToCluster (makers c) = Some h"
  shows "joinNodesFromList c (host # rest) = Some nilDereference"
  using assms by (simp add: joinNodesFromList_def)

lemma leaveNodesFromList_absent:
  "LeaveNodeFromCluster (makers c) = None \<Longrightarrow> leaveNodesFromList c hs master = None"
  by (induction hs) simp_all

text \<open>
  Claim C4 fails as stated: with no \<open>GetState\<close> hook, \<open>GetState\<close> returns an error.
\<close>

theorem absent_hook_counterexample:
  "GetState_hook (makers bareCluster) = None \<and>
   fst (GetState bareCluster) =
     Inl (NotImplementedError ''cluster maker does not define ForceGetState'')"
  by (simp add: GetState_def bareCluster_def noMakers_def)

text \<open>
  Claim C4, amended. For the hooks ConfigureGateway, ConfigureNode, ConfigureCluster,
  UnconfigureMaster, LeaveNodeFromCluster and MinimumRequiredServers the controller
  tests the hook itself before calling it, and an absent hook is a no-op: the operation
  returns what it returns without the hook step (success when its other steps succeed,
  zero counts for MinimumRequiredServers). \<open>GetState\<close> tests its hook too and does not
  call an absent one, but then fails with NotImplemented and leaves the cluster
  unchanged.
\<close>

theorem absent_hooks:
  "(ConfigureGateway (makers c) = None \<longrightarrow> taskConfigureGateway c host = None) \<and>
   (ConfigureNode (makers c) = None \<longrightarrow>
      taskConfigureNode c index host =
        (if index < 1
         then Some (InvalidParameterError ''params.Index'' ''cannot be an integer less than 1'')
         else installDocker host)) \<and>
   (ConfigureCluster (makers c) = None \<longrightarrow>
      configureCluster c =
        (case installReverseProxy c of Some xerr \<Rightarrow> Some xerr | None \<Rightarrow> installRemoteDesktop c)) \<and>
   (UnconfigureMaster (makers c) = None \<longrightarrow> unconfigureMaster c host = None) \<and>
   (LeaveNodeFromCluster (makers c) = None \<longrightarrow> leaveNodesFromList c hs master = None) \<and>
   (MinimumRequiredServers (makers c) = None \<longrightarrow> determineRequiredNodes c = Inr (0, 0, 0)) \<and>
   (GetState_hook (makers c) = None \<longrightarrow>
      GetState c = (Inl (NotImplementedError ''cluster maker does not define ForceGetState''), c))"
proof (intro conjI impI)
  assume "ConfigureGateway (makers c) = None"
  then show "taskConfigureGateway c host = None"
    by (simp add: taskConfigureGateway_def)
next
  assume "ConfigureNode (makers c) = None"
  then show "taskConfigureNode c index host =
        (if index < 1
         then Some (InvalidParameterError ''params.Index'' ''cannot be an integer less than 1'')
         else installDocker host)"
    by (simp add: taskConfigureNode_def split: option.split)
next
  assume "ConfigureCluster (makers c) = None"
  then show "configureCluster c =
        (case installReverseProxy c of Some xerr \<Rightarrow> Some xerr | None \<Rightarrow> installRemoteDesktop c)"
    by (simp add: configureCluster_def split: option.split)
next
  assume "UnconfigureMaster (makers c) = None"
  then show "unconfigureMaster c host = None"
    by (simp add: unconfigureMaster_def)
next
  assume "LeaveNodeFromCluster (makers c) = None"
  then show "leaveNodesFromList c hs master = None"
    by (rule leaveNodesFromList_absent)
next
  assume "MinimumRequiredServers (makers c) = None"
  then show "determineRequiredNodes c = Inr (0, 0, 0)"
    by (simp add: determineRequiredNodes_def)
next
  assume "GetState_hook (makers c) = None"
  then show "GetState c =
      (Inl (NotImplementedError ''cluster maker does not define ForceGetState''), c)"
    by (simp add: GetState_def)
qed

theorem absent_hooks_witness:
  "ConfigureGateway (makers bareCluster) = None \<and> ConfigureNode (makers bareCluster) = None \<and>
   ConfigureCluster (makers bareCluster) = None \<and> UnconfigureMaster (makers bareCluster) = None \<and>
   LeaveNodeFromCluster (makers bareCluster) = None \<and>
   MinimumRequiredServers (makers bareCluster) = None \<and>
   GetState_hook (makers bareCluster) = None \<and>
   taskConfigureGateway bareCluster (newHost ''n1'') = None \<and>
   taskConfigureNode bareCluster 1 (newHost ''n1'') = None \<and>
   configureCluster bareCluster = None \<and>
   unconfigureMaster bareCluster (newHost ''n1'') = None \<and>
   leaveNodesFromList bareCluster [newHost ''n1'', newHost ''n2''] (newHost ''m1'') = None \<and>
   determineRequiredNodes bareCluster = Inr (0, 0, 0) \<and>
   GetState bareCluster =
     (Inl (NotImplementedError ''cluster maker does not define ForceGetState''), bareCluster)"
proof -
  have m: "makers bareCluster = noMakers"
    by (simp add: bareCluster_def)
  have none: "ConfigureGateway noMakers = None" "ConfigureNode noMakers = None"
    "ConfigureCluster noMakers = None" "UnconfigureMaster noMakers = None"
    "LeaveNodeFromCluster noMakers = None" "MinimumRequiredServers noMakers = None"
    "GetState_hook noMakers = None"
    by (simp_all add: noMakers_def)
  have env: "installReverseProxy bareCluster = None" "installRemoteDesktop bareCluster = None"
    "installDocker (newHost ''n1'') = None"
    by (simp_all add: bareCluster_def clusterIn_def newHost_def)
  show ?thesis
    using absent_hooks [where c = bareCluster and host = "newHost ''n1''" and index = 1
        and hs = "[newHost ''n1'', newHost ''n2'']" and master = "newHost ''m1''"]
    by (simp add: m none env)
qed

subsection \<open>Creation of one host\<close>

lemma buildHostname_props:
  "snd (buildHostname c core nodeType) =
     c\<lparr>props := (props c)\<lparr>NodesV2 := Some
        (case nodeType of
           Node \<Rightarrow> (nodesOf c)\<lparr>PrivateLastIndex := PrivateLastIndex (nodesOf c) + 1\<rparr>
         | Master \<Rightarrow> (nodesOf c)\<lparr>MasterLastIndex := MasterLastIndex (nodesOf c) + 1\<rparr>
         | Gateway \<Rightarrow> nodesOf c)\<rparr>\<rparr>"
  by (cases nodeType) (simp_all add: buildHostname_def Alter_def nextIndex_def nodesOf_def Let_def)

lemma buildHostname_succeeds: "\<exists>n. fst (buildHostname c core nodeType) = Inr n"
  by (cases nodeType) (simp_all add: buildHostname_def Alter_def nextIndex_def Let_def)

lemma newClusterNode_readable:
  "readable rh \<Longrightarrow> \<exists>n. newClusterNode rh g = Inr n \<and> ID n = GetID rh \<and> NumericalID n = g"
  by (auto simp: readable_def newClusterNode_def split: sum.splits)

lemma newClusterNode_unreadable:
  "\<not> readable rh \<Longrightarrow> \<exists>e. newClusterNode rh g = Inl e"
  by (auto simp: readable_def newClusterNode_def split: sum.splits)

lemma readable_GetName: "readable (rh\<lparr>GetName := n\<rparr>) = readable rh"
  by (simp add: readable_def)

lemma taskCreateNode_created:
  assumes "createdNode c Index host"
  obtains nm where
    "taskCreateNode c Index NoKeep host =
       deleteOnFailure NoKeep (host\<lparr>GetName := nm\<rparr>)
         (case Alter (afterCreation Node c host) (registerNode (host\<lparr>GetName := nm\<rparr>)) of
            (Inl xerr, c2) \<Rightarrow> (Inl (Wrap xerr ''creation failed''), c2)
          | (Inr u, c2) \<Rightarrow>
              (case installProxyCacheClient (host\<lparr>GetName := nm\<rparr>) of
                 Some xerr \<Rightarrow> (Inl xerr, c2)
               | None \<Rightarrow>
                   (case installNodeRequirements (host\<lparr>GetName := nm\<rparr>) of
                      Some xerr \<Rightarrow> (Inl xerr, c2)
                    | None \<Rightarrow> (Inr (host\<lparr>GetName := nm\<rparr>), c2))))"
proof -
  obtain nm where "fst (buildHostname c ''node'' Node) = Inr nm"
    using buildHostname_succeeds by blast
  then have b: "buildHostname c ''node'' Node =
      (Inr nm, c\<lparr>props := (props c)\<lparr>NodesV2 :=
         Some ((nodesOf c)\<lparr>PrivateLastIndex := PrivateLastIndex (nodesOf c) + 1\<rparr>)\<rparr>\<rparr>)"
    using buildHostname_props [of c "''node''" Node] by (simp add: prod_eq_iff)
  from assms obtain ip where
    "GetDefaultRouteIP (service c) (SubnetID (GetNetworkConfig c)) = Inr ip"
    by (auto simp: createdNode_def split: sum.splits)
  with assms b have "taskCreateNode c Index NoKeep host =
       deleteOnFailure NoKeep (host\<lparr>GetName := nm\<rparr>)
         (case Alter (afterCreation Node c host) (registerNode (host\<lparr>GetName := nm\<rparr>)) of
            (Inl xerr, c2) \<Rightarrow> (Inl (Wrap xerr ''creation failed''), c2)
          | (Inr u, c2) \<Rightarrow>
              (case installProxyCacheClient (host\<lparr>GetName := nm\<rparr>) of
                 Some xerr \<Rightarrow> (Inl xerr, c2)
               | None \<Rightarrow>
                   (case installNodeRequirements (host\<lparr>GetName := nm\<rparr>) of
                      Some xerr \<Rightarrow> (Inl xerr, c2)
                    | None \<Rightarrow> (Inr (host\<lparr>GetName := nm\<rparr>), c2))))"
    by (simp add: taskCreateNode_def createdNode_def host_Create_def Let_def afterCreation_def)
  then show thesis by (rule that)
qed

lemma taskCreateMaster_created:
  assumes "createdMaster c Index host"
  obtains nm where
    "taskCreateMaster c Index NoKeep host =
       (case Alter (afterCreation Master c host) (registerMaster (host\<lparr>GetName := nm\<rparr>)) of
          (Inl xerr, c2) \<Rightarrow>
            if NoKeep then
              (case host_Delete (host\<lparr>GetName := nm\<rparr>) (service c2) of
                 (Some derr, svc') \<Rightarrow>
                   (Some (Wrap (WithConsequence xerr derr) ''Host creation failed''),
                    c2\<lparr>service := svc'\<rparr>)
               | (None, svc') \<Rightarrow>
                   (Some (Wrap xerr ''Host creation failed''), c2\<lparr>service := svc'\<rparr>))
            else (Some (Wrap xerr ''Host creation failed''), c2)
        | (Inr u, c2) \<Rightarrow>
            (case installProxyCacheClient (host\<lparr>GetName := nm\<rparr>) of
               Some xerr \<Rightarrow> (Some xerr, c2)
             | None \<Rightarrow>
                 (case installNodeRequirements (host\<lparr>GetName := nm\<rparr>) of
                    Some xerr \<Rightarrow> (Some xerr, c2)
                  | None \<Rightarrow> (None, c2))))"
proof -
  obtain nm where "fst (buildHostname c ''master'' Master) = Inr nm"
    using buildHostname_succeeds by blast
  then have b: "buildHostname c ''master'' Master =
      (Inr nm, c\<lparr>props := (props c)\<lparr>NodesV2 :=
         Some ((nodesOf c)\<lparr>MasterLastIndex := MasterLastIndex (nodesOf c) + 1\<rparr>)\<rparr>\<rparr>)"
    using buildHostname_props [of c "''master''" Master] by (simp add: prod_eq_iff)
  with assms have "taskCreateMaster c Index NoKeep host =
       (case Alter (afterCreation Master c host) (registerMaster (host\<lparr>GetName := nm\<rparr>)) of
          (Inl xerr, c2) \<Rightarrow>
            if NoKeep then
              (case host_Delete (host\<lparr>GetName := nm\<rparr>) (service c2) of
                 (Some derr, svc') \<Rightarrow>
                   (Some (Wrap (WithConsequence xerr derr) ''Host creation failed''),
                    c2\<lparr>service := svc'\<rparr>)
               | (None, svc') \<Rightarrow>
                   (Some (Wrap xerr ''Host creation failed''), c2\<lparr>service := svc'\<rparr>))
            else (Some (Wrap xerr ''Host creation failed''), c2)
        | (Inr u, c2) \<Rightarrow>
            (case installProxyCacheClient (host\<lparr>GetName := nm\<rparr>) of
               Some xerr \<Rightarrow> (Some xerr, c2)
             | None \<Rightarrow>
                 (case installNodeRequirements (host\<lparr>GetName := nm\<rparr>) of
                    Some xerr \<Rightarrow> (Some xerr, c2)
                  | None \<Rightarrow> (None, c2))))"
    by (simp add: taskCreateMaster_def createdMaster_def host_Create_def Let_def afterCreation_def)
  then show thesis by (rule that)
qed

text \<open>The two outcomes of the registration of a host in the Nodes property.\<close>

lemma registerNode_unreadable:
  "\<not> readable rh \<Longrightarrow> \<exists>e. Alter c (registerNode rh) = (Inl e, c)"
  using newClusterNode_unreadable [of rh "GlobalLastIndex (nodesOf c) + 1"]
  by (auto simp: Alter_def registerNode_def Let_def nodesOf_def)

lemma registerMaster_unreadable:
  "\<not> readable rh \<Longrightarrow> \<exists>e. Alter c (registerMaster rh) = (Inl e, c)"
  using newClusterNode_unreadable [of rh "GlobalLastIndex (nodesOf c) + 1"]
  by (auto simp: Alter_def registerMaster_def Let_def nodesOf_def)

lemma registerNode_readable:
  "readable rh \<Longrightarrow>
     \<exists>n. ID n = GetID rh \<and> NumericalID n = GlobalLastIndex (nodesOf c) + 1 \<and>
       Alter c (registerNode rh) =
         (Inr (), c\<lparr>props := (props c)\<lparr>NodesV2 := Some ((nodesOf c)
            \<lparr>GlobalLastIndex := GlobalLastIndex (nodesOf c) + 1,
             PrivateNodes := PrivateNodes (nodesOf c) @ [n]\<rparr>)\<rparr>\<rparr>)"
  using newClusterNode_readable [of rh "GlobalLastIndex (nodesOf c) + 1"]
  by (auto simp: Alter_def registerNode_def Let_def nodesOf_def)

lemma registerMaster_readable:
  "readable rh \<Longrightarrow>
     \<exists>n. ID n = GetID rh \<and> NumericalID n = GlobalLastIndex (nodesOf c) + 1 \<and>
       Alter c (registerMaster rh) =
         (Inr (), c\<lparr>props := (props c)\<lparr>NodesV2 := Some ((nodesOf c)
            \<lparr>GlobalLastIndex := GlobalLastIndex (nodesOf c) + 1,
             Masters := Masters (nodesOf c) @ [n]\<rparr>)\<rparr>\<rparr>)"
  using newClusterNode_readable [of rh "GlobalLastIndex (nodesOf c) + 1"]
  by (auto simp: Alter_def registerMaster_def Let_def nodesOf_def)

lemma nodesOf_afterCreation:
  "PrivateNodes (nodesOf (afterCreation nodeType c host)) = PrivateNodes (nodesOf c)"
  "Masters (nodesOf (afterCreation nodeType c host)) = Masters (nodesOf c)"
  "GlobalLastIndex (nodesOf (afterCreation nodeType c host)) = GlobalLastIndex (nodesOf c)"
  by (cases nodeType; simp add: afterCreation_def nodesOf_def payload_def)+

lemma service_afterCreation:
  "hosts (service (afterCreation nodeType c host)) = insert (GetID host) (hosts (service c))"
  by (simp add: afterCreation_def)

text \<open>What a run of \<open>taskCreateNode\<close> leaves behind, case by case.\<close>

lemma taskCreateNode_not_created:
  assumes "\<not> createdNode c Index host"
  shows "isl (fst (taskCreateNode c Index NoKeep host))"
    and "PrivateNodes (nodesOf (snd (taskCreateNode c Index NoKeep host))) = PrivateNodes (nodesOf c)"
    and "Masters (nodesOf (snd (taskCreateNode c Index NoKeep host))) = Masters (nodesOf c)"
    and "GlobalLastIndex (nodesOf (snd (taskCreateNode c Index NoKeep host))) =
      GlobalLastIndex (nodesOf c)"
    and "hosts (service (snd (taskCreateNode c Index NoKeep host))) = hosts (service c)"
proof -
  obtain nm where "fst (buildHostname c ''node'' Node) = Inr nm"
    using buildHostname_succeeds by blast
  then have b: "buildHostname c ''node'' Node =
      (Inr nm, c\<lparr>props := (props c)\<lparr>NodesV2 :=
         Some ((nodesOf c)\<lparr>PrivateLastIndex := PrivateLastIndex (nodesOf c) + 1\<rparr>)\<rparr>\<rparr>)"
    using buildHostname_props [of c "''node''" Node] by (simp add: prod_eq_iff)
  from assms b show "isl (fst (taskCreateNode c Index NoKeep host))"
    by (auto simp: taskCreateNode_def createdNode_def host_Create_def Let_def
        split: option.splits sum.splits)
  from assms b show "PrivateNodes (nodesOf (snd (taskCreateNode c Index NoKeep host))) =
      PrivateNodes (nodesOf c)"
    by (auto simp: taskCreateNode_def createdNode_def host_Create_def Let_def nodesOf_def
        payload_def split: option.splits sum.splits)
  from assms b show "Masters (nodesOf (snd (taskCreateNode c Index NoKeep host))) =
      Masters (nodesOf c)"
    by (auto simp: taskCreateNode_def createdNode_def host_Create_def Let_def nodesOf_def
        payload_def split: option.splits sum.splits)
  from assms b show "GlobalLastIndex (nodesOf (snd (taskCreateNode c Index NoKeep host))) =
      GlobalLastIndex (nodesOf c)"
    by (auto simp: taskCreateNode_def createdNode_def host_Create_def Let_def nodesOf_def
        payload_def split: option.splits sum.splits)
  from assms b show "hosts (service (snd (taskCreateNode c Index NoKeep host))) = hosts (service c)"
    by (auto simp: taskCreateNode_def createdNode_def host_Create_def Let_def
        split: option.splits sum.splits)
qed

lemma taskCreateNode_unreadable:
  assumes "createdNode c Index host" and "\<not> readable host"
  shows "isl (fst (taskCreateNode c Index NoKeep host))"
    and "PrivateNodes (nodesOf (snd (taskCreateNode c Index NoKeep host))) = PrivateNodes (nodesOf c)"
    and "Masters (nodesOf (snd (taskCreateNode c Index NoKeep host))) = Masters (nodesOf c)"
    and "GlobalLastIndex (nodesOf (snd (taskCreateNode c Index NoKeep host))) =
      GlobalLastIndex (nodesOf c)"
    and "NoKeep \<Longrightarrow> Delete_answer host = None \<Longrightarrow>
      GetID host \<notin> hosts (service (snd (taskCreateNode c Index NoKeep host)))"
proof -
  obtain nm where t: "taskCreateNode c Index NoKeep host =
       deleteOnFailure NoKeep (host\<lparr>GetName := nm\<rparr>)
         (case Alter (afterCreation Node c host) (registerNode (host\<lparr>GetName := nm\<rparr>)) of
            (Inl xerr, c2) \<Rightarrow> (Inl (Wrap xerr ''creation failed''), c2)
          | (Inr u, c2) \<Rightarrow>
              (case installProxyCacheClient (host\<lparr>GetName := nm\<rparr>) of
                 Some xerr \<Rightarrow> (Inl xerr, c2)
               | None \<Rightarrow>
                   (case installNodeRequirements (host\<lparr>GetName := nm\<rparr>) of
                      Some xerr \<Rightarrow> (Inl xerr, c2)
                    | None \<Rightarrow> (Inr (host\<lparr>GetName := nm\<rparr>), c2))))"
    using taskCreateNode_created [OF assms(1)] by blast
  from assms(2) have "\<not> readable (host\<lparr>GetName := nm\<rparr>)"
    by (simp add: readable_GetName)
  then obtain e where a: "Alter (afterCreation Node c host) (registerNode (host\<lparr>GetName := nm\<rparr>)) =
      (Inl e, afterCreation Node c host)"
    using registerNode_unreadable by blast
  show "isl (fst (taskCreateNode c Index NoKeep host))"
    by (simp add: t a deleteOnFailure_def host_Delete_def split: option.split)
  show "PrivateNodes (nodesOf (snd (taskCreateNode c Index NoKeep host))) = PrivateNodes (nodesOf c)"
    using nodesOf_afterCreation(1) [of Node c host]
    by (simp add: t a deleteOnFailure_def host_Delete_def nodesOf_def split: option.split)
  show "Masters (nodesOf (snd (taskCreateNode c Index NoKeep host))) = Masters (nodesOf c)"
    using nodesOf_afterCreation(2) [of Node c host]
    by (simp add: t a deleteOnFailure_def host_Delete_def nodesOf_def split: option.split)
  show "GlobalLastIndex (nodesOf (snd (taskCreateNode c Index NoKeep host))) =
      GlobalLastIndex (nodesOf c)"
    using nodesOf_afterCreation(3) [of Node c host]
    by (simp add: t a deleteOnFailure_def host_Delete_def nodesOf_def split: option.split)
  show "GetID host \<notin> hosts (service (snd (taskCreateNode c Index NoKeep host)))"
    if "NoKeep" "Delete_answer host = None"
    using that t a by (simp add: deleteOnFailure_def host_Delete_def afterCreation_def)
qed

lemma taskCreateNode_readable:
  assumes "createdNode c Index host" and "readable host"
  shows "\<exists>n. ID n = GetID host \<and> NumericalID n = GlobalLastIndex (nodesOf c) + 1 \<and>
      PrivateNodes (nodesOf (snd (taskCreateNode c Index NoKeep host))) =
        PrivateNodes (nodesOf c) @ [n]"
    and "Masters (nodesOf (snd (taskCreateNode c Index NoKeep host))) = Masters (nodesOf c)"
    and "GlobalLastIndex (nodesOf (snd (taskCreateNode c Index NoKeep host))) =
      GlobalLastIndex (nodesOf c) + 1"
    and "isl (fst (taskCreateNode c Index NoKeep host)) \<longleftrightarrow>
      installProxyCacheClient host \<noteq> None \<or> installNodeRequirements host \<noteq> None"
    and "isl (fst (taskCreateNode c Index NoKeep host)) \<Longrightarrow> NoKeep \<Longrightarrow>
      Delete_answer host = None \<Longrightarrow>
      GetID host \<notin> hosts (service (snd (taskCreateNode c Index NoKeep host)))"
proof -
  obtain nm where t: "taskCreateNode c Index NoKeep host =
       deleteOnFailure NoKeep (host\<lparr>GetName := nm\<rparr>)
         (case Alter (afterCreation Node c host) (registerNode (host\<lparr>GetName := nm\<rparr>)) of
            (Inl xerr, c2) \<Rightarrow> (Inl (Wrap xerr ''creation failed''), c2)
          | (Inr u, c2) \<Rightarrow>
              (case installProxyCacheClient (host\<lparr>GetName := nm\<rparr>) of
                 Some xerr \<Rightarrow> (Inl xerr, c2)
               | None \<Rightarrow>
                   (case installNodeRequirements (host\<lparr>GetName := nm\<rparr>) of
                      Some xerr \<Rightarrow> (Inl xerr, c2)
                    | None \<Rightarrow> (Inr (host\<lparr>GetName := nm\<rparr>), c2))))"
    using taskCreateNode_created [OF assms(1)] by blast
  let ?a = "afterCreation Node c host"
  from assms(2) have "readable (host\<lparr>GetName := nm\<rparr>)"
    by (simp add: readable_GetName)
  then obtain n where n: "ID n = GetID host" "NumericalID n = GlobalLastIndex (nodesOf c) + 1"
    and a: "Alter ?a (registerNode (host\<lparr>GetName := nm\<rparr>)) =
         (Inr (), ?a\<lparr>props := (props ?a)\<lparr>NodesV2 := Some ((nodesOf ?a)
            \<lparr>GlobalLastIndex := GlobalLastIndex (nodesOf c) + 1,
             PrivateNodes := PrivateNodes (nodesOf c) @ [n]\<rparr>)\<rparr>\<rparr>)"
    using registerNode_readable [of "host\<lparr>GetName := nm\<rparr>" ?a]
    by (auto simp: nodesOf_afterCreation)
  have pn: "PrivateNodes (nodesOf (snd (taskCreateNode c Index NoKeep host))) =
        PrivateNodes (nodesOf c) @ [n]"
    by (simp add: t a deleteOnFailure_def host_Delete_def nodesOf_def payload_def
        split: option.split)
  with n show "\<exists>n. ID n = GetID host \<and> NumericalID n = GlobalLastIndex (nodesOf c) + 1 \<and>
      PrivateNodes (nodesOf (snd (taskCreateNode c Index NoKeep host))) =
        PrivateNodes (nodesOf c) @ [n]"
    by blast
  show "Masters (nodesOf (snd (taskCreateNode c Index NoKeep host))) = Masters (nodesOf c)"
    using nodesOf_afterCreation(2) [of Node c host]
    by (simp add: t a deleteOnFailure_def host_Delete_def nodesOf_def payload_def
        split: option.split)
  show "GlobalLastIndex (nodesOf (snd (taskCreateNode c Index NoKeep host))) =
      GlobalLastIndex (nodesOf c) + 1"
    by (simp add: t a deleteOnFailure_def host_Delete_def nodesOf_def payload_def
        split: option.split)
  show "isl (fst (taskCreateNode c Index NoKeep host)) \<longleftrightarrow>
      installProxyCacheClient host \<noteq> None \<or> installNodeRequirements host \<noteq> None"
    by (auto simp: t a deleteOnFailure_def host_Delete_def split: option.splits)
  show "GetID host \<notin> hosts (service (snd (taskCreateNode c Index NoKeep host)))"
    if "isl (fst (taskCreateNode c Index NoKeep host))" "NoKeep" "Delete_answer host = None"
    using that t a by (auto simp: deleteOnFailure_def host_Delete_def afterCreation_def
        split: option.splits)
qed

text \<open>What a run of \<open>taskCreateMaster\<close> leaves behind, case by case.\<close>

lemma taskCreateMaster_not_created:
  assumes "\<not> createdMaster c Index host"
  shows "fst (taskCreateMaster c Index NoKeep host) \<noteq> None"
    and "PrivateNodes (nodesOf (snd (taskCreateMaster c Index NoKeep host))) = PrivateNodes (nodesOf c)"
    and "Masters (nodesOf (snd (taskCreateMaster c Index NoKeep host))) = Masters (nodesOf c)"
    and "GlobalLastIndex (nodesOf (snd (taskCreateMaster c Index NoKeep host))) =
      GlobalLastIndex (nodesOf c)"
proof -
  obtain nm where "fst (buildHostname c ''master'' Master) = Inr nm"
    using buildHostname_succeeds by blast
  then have b: "buildHostname c ''master'' Master =
      (Inr nm, c\<lparr>props := (props c)\<lparr>NodesV2 :=
         Some ((nodesOf c)\<lparr>MasterLastIndex := MasterLastIndex (nodesOf c) + 1\<rparr>)\<rparr>\<rparr>)"
    using buildHostname_props [of c "''master''" Master] by (simp add: prod_eq_iff)
  from assms b show "fst (taskCreateMaster c Index NoKeep host) \<noteq> None"
    by (auto simp: taskCreateMaster_def createdMaster_def host_Create_def Let_def
        split: option.splits sum.splits)
  from assms b show "PrivateNodes (nodesOf (snd (taskCreateMaster c Index NoKeep host))) =
      PrivateNodes (nodesOf c)"
    by (auto simp: taskCreateMaster_def createdMaster_def host_Create_def Let_def nodesOf_def
        payload_def split: option.splits sum.splits)
  from assms b show "Masters (nodesOf (snd (taskCreateMaster c Index NoKeep host))) =
      Masters (nodesOf c)"
    by (auto simp: taskCreateMaster_def createdMaster_def host_Create_def Let_def nodesOf_def
        payload_def split: option.splits sum.splits)
  from assms b show "GlobalLastIndex (nodesOf (snd (taskCreateMaster c Index NoKeep host))) =
      GlobalLastIndex (nodesOf c)"
    by (auto simp: taskCreateMaster_def createdMaster_def host_Create_def Let_def nodesOf_def
        payload_def split: option.splits sum.splits)
qed

lemma taskCreateMaster_unreadable:
  assumes "createdMaster c Index host" and "\<not> readable host"
  shows "fst (taskCreateMaster c Index NoKeep host) \<noteq> None"
    and "PrivateNodes (nodesOf (snd (taskCreateMaster c Index NoKeep host))) = PrivateNodes (nodesOf c)"
    and "Masters (nodesOf (snd (taskCreateMaster c Index NoKeep host))) = Masters (nodesOf c)"
    and "GlobalLastIndex (nodesOf (snd (taskCreateMaster c Index NoKeep host))) =
      GlobalLastIndex (nodesOf c)"
    and "NoKeep \<Longrightarrow> Delete_answer host = None \<Longrightarrow>
      GetID host \<notin> hosts (service (snd (taskCreateMaster c Index NoKeep host)))"
proof -
  obtain nm where t: "taskCreateMaster c Index NoKeep host =
       (case Alter (afterCreation Master c host) (registerMaster (host\<lparr>GetName := nm\<rparr>)) of
          (Inl xerr, c2) \<Rightarrow>
            if NoKeep then
              (case host_Delete (host\<lparr>GetName := nm\<rparr>) (service c2) of
                 (Some derr, svc') \<Rightarrow>
                   (Some (Wrap (WithConsequence xerr derr) ''Host creation failed''),
                    c2\<lparr>service := svc'\<rparr>)
               | (None, svc') \<Rightarrow>
                   (Some (Wrap xerr ''Host creation failed''), c2\<lparr>service := svc'\<rparr>))
            else (Some (Wrap xerr ''Host creation failed''), c2)
        | (Inr u, c2) \<Rightarrow>
            (case installProxyCacheClient (host\<lparr>GetName := nm\<rparr>) of
               Some xerr \<Rightarrow> (Some xerr, c2)
             | None \<Rightarrow>
                 (case installNodeRequirements (host\<lparr>GetName := nm\<rparr>) of
                    Some xerr \<Rightarrow> (Some xerr, c2)
                  | None \<Rightarrow> (None, c2))))"
    using taskCreateMaster_created [OF assms(1)] by blast
  from assms(2) have "\<not> readable (host\<lparr>GetName := nm\<rparr>)"
    by (simp add: readable_GetName)
  then obtain e where a: "Alter (afterCreation Master c host) (registerMaster (host\<lparr>GetName := nm\<rparr>)) =
      (Inl e, afterCreation Master c host)"
    using registerMaster_unreadable by blast
  show "fst (taskCreateMaster c Index NoKeep host) \<noteq> None"
    by (simp add: t a host_Delete_def split: option.split)
  show "PrivateNodes (nodesOf (snd (taskCreateMaster c Index NoKeep host))) = PrivateNodes (nodesOf c)"
    using nodesOf_afterCreation(1) [of Master c host]
    by (simp add: t a host_Delete_def nodesOf_def split: option.split)
  show "Masters (nodesOf (snd (taskCreateMaster c Index NoKeep host))) = Masters (nodesOf c)"
    using nodesOf_afterCreation(2) [of Master c host]
    by (simp add: t a host_Delete_def nodesOf_def split: option.split)
  show "GlobalLastIndex (nodesOf (snd (taskCreateMaster c Index NoKeep host))) =
      GlobalLastIndex (nodesOf c)"
    using nodesOf_afterCreation(3) [of Master c host]
    by (simp add: t a host_Delete_def nodesOf_def split: option.split)
  show "GetID host \<notin> hosts (service (snd (taskCreateMaster c Index NoKeep host)))"
    if "NoKeep" "Delete_answer host = None"
    using that t a by (simp add: host_Delete_def afterCreation_def)
qed

lemma taskCreateMaster_readable:
  assumes "createdMaster c Index host" and "readable host"
  shows "\<exists>n. ID n = GetID host \<and> NumericalID n = GlobalLastIndex (nodesOf c) + 1 \<and>
      Masters (nodesOf (snd (taskCreateMaster c Index NoKeep host))) = Masters (nodesOf c) @ [n]"
    and "PrivateNodes (nodesOf (snd (taskCreateMaster c Index NoKeep host))) =
      PrivateNodes (nodesOf c)"
    and "GlobalLastIndex (nodesOf (snd (taskCreateMaster c Index NoKeep host))) =
      GlobalLastIndex (nodesOf c) + 1"
    and "fst (taskCreateMaster c Index NoKeep host) \<noteq> None \<longleftrightarrow>
      installProxyCacheClient host \<noteq> None \<or> installNodeRequirements host \<noteq> None"
    and "GetID host \<in> hosts (service (snd (taskCreateMaster c Index NoKeep host)))"
proof -
  obtain nm where t: "taskCreateMaster c Index NoKeep host =
       (case Alter (afterCreation Master c host) (registerMaster (host\<lparr>GetName := nm\<rparr>)) of
          (Inl xerr, c2) \<Rightarrow>
            if NoKeep then
              (case host_Delete (host\<lparr>GetName := nm\<rparr>) (service c2) of
                 (Some derr, svc') \<Rightarrow>
                   (Some (Wrap (WithConsequence xerr derr) ''Host creation failed''),
                    c2\<lparr>service := svc'\<rparr>)
               | (None, svc') \<Rightarrow>
                   (Some (Wrap xerr ''Host creation failed''), c2\<lparr>service := svc'\<rparr>))
            else (Some (Wrap xerr ''Host creation failed''), c2)
        | (Inr u, c2) \<Rightarrow>
            (case installProxyCacheClient (host\<lparr>GetName := nm\<rparr>) of
               Some xerr \<Rightarrow> (Some xerr, c2)
             | None \<Rightarrow>
                 (case installNodeRequirements (host\<lparr>GetName := nm\<rparr>) of
                    Some xerr \<Rightarrow> (Some xerr, c2)
                  | None \<Rightarrow> (None, c2))))"
    using taskCreateMaster_created [OF assms(1)] by blast
  let ?a = "afterCreation Master c host"
  from assms(2) have "readable (host\<lparr>GetName := nm\<rparr>)"
    by (simp add: readable_GetName)
  then obtain n where n: "ID n = GetID host" "NumericalID n = GlobalLastIndex (nodesOf c) + 1"
    and a: "Alter ?a (registerMaster (host\<lparr>GetName := nm\<rparr>)) =
         (Inr (), ?a\<lparr>props := (props ?a)\<lparr>NodesV2 := Some ((nodesOf ?a)
            \<lparr>GlobalLastIndex := GlobalLastIndex (nodesOf c) + 1,
             Masters := Masters (nodesOf c) @ [n]\<rparr>)\<rparr>\<rparr>)"
    using registerMaster_readable [of "host\<lparr>GetName := nm\<rparr>" ?a]
    by (auto simp: nodesOf_afterCreation)
  have "Masters (nodesOf (snd (taskCreateMaster c Index NoKeep host))) = Masters (nodesOf c) @ [n]"
    by (simp add: t a nodesOf_def payload_def split: option.split)
  with n show "\<exists>n. ID n = GetID host \<and> NumericalID n = GlobalLastIndex (nodesOf c) + 1 \<and>
      Masters (nodesOf (snd (taskCreateMaster c Index NoKeep host))) = Masters (nodesOf c) @ [n]"
    by blast
  show "PrivateNodes (nodesOf (snd (taskCreateMaster c Index NoKeep host))) =
      PrivateNodes (nodesOf c)"
    using nodesOf_afterCreation(1) [of Master c host]
    by (simp add: t a nodesOf_def payload_def split: option.split)
  show "GlobalLastIndex (nodesOf (snd (taskCreateMaster c Index NoKeep host))) =
      GlobalLastIndex (nodesOf c) + 1"
    by (simp add: t a nodesOf_def payload_def split: option.split)
  show "fst (taskCreateMaster c Index NoKeep host) \<noteq> None \<longleftrightarrow>
      installProxyCacheClient host \<noteq> None \<or> installNodeRequirements host \<noteq> None"
    by (auto simp: t a split: option.splits)
  show "GetID host \<in> hosts (service (snd (taskCreateMaster c Index NoKeep host)))"
    by (simp add: t a service_afterCreation split: option.split)
qed

text \<open>
  \<open>taskCreateMaster\<close> deletes the host only when its registration fails: when a later
  installation step fails the task returns the error and the host stays at the
  provider, whatever \<open>NoKeep\<close> says (\<open>taskCreateNode\<close> deletes it in that case).
\<close>

lemma taskCreateMaster_keeps_host:
  assumes "createdMaster c Index host" and "readable host"
    and "installProxyCacheClient host \<noteq> None \<or> installNodeRequirements host \<noteq> None"
  shows "fst (taskCreateMaster c Index True host) \<noteq> None"
    and "GetID host \<in> hosts (service (snd (taskCreateMaster c Index True host)))"
  using taskCreateMaster_readable(4,5) [OF assms(1,2)] assms(3) by simp_all







subsection \<open>Numerical IDs\<close>

text \<open>The counter after one creation task: it has moved by at most one, and a task that
  succeeded has recorded its new value for the host.\<close>

lemma taskCreateNode_counter:
  "GlobalLastIndex (nodesOf (snd (taskCreateNode c Index NoKeep host))) = GlobalLastIndex (nodesOf c) \<or>
   GlobalLastIndex (nodesOf (snd (taskCreateNode c Index NoKeep host))) = GlobalLastIndex (nodesOf c) + 1"
  using taskCreateNode_not_created(4) [of c Index host NoKeep]
    taskCreateNode_unreadable(4) [of c Index host NoKeep]
    taskCreateNode_readable(3) [of c Index host NoKeep]
  by blast

lemma taskCreateNode_recorded:
  assumes "\<not> isl (fst (taskCreateNode c Index NoKeep host))"
  shows "GlobalLastIndex (nodesOf (snd (taskCreateNode c Index NoKeep host))) =
      GlobalLastIndex (nodesOf c) + 1"
    and "NumericalID (last (PrivateNodes (nodesOf (snd (taskCreateNode c Index NoKeep host))))) =
      GlobalLastIndex (nodesOf c) + 1"
proof -
  from assms have cr: "createdNode c Index host"
    using taskCreateNode_not_created(1) by blast
  with assms have rd: "readable host"
    using taskCreateNode_unreadable(1) by blast
  show "GlobalLastIndex (nodesOf (snd (taskCreateNode c Index NoKeep host))) =
      GlobalLastIndex (nodesOf c) + 1"
    by (rule taskCreateNode_readable(3) [OF cr rd])
  obtain n where "NumericalID n = GlobalLastIndex (nodesOf c) + 1"
    and "PrivateNodes (nodesOf (snd (taskCreateNode c Index NoKeep host))) =
        PrivateNodes (nodesOf c) @ [n]"
    using taskCreateNode_readable(1) [OF cr rd] by blast
  then show "NumericalID (last (PrivateNodes (nodesOf (snd (taskCreateNode c Index NoKeep host))))) =
      GlobalLastIndex (nodesOf c) + 1"
    by simp
qed

lemma taskCreateMaster_counter:
  "GlobalLastIndex (nodesOf (snd (taskCreateMaster c Index NoKeep host))) = GlobalLastIndex (nodesOf c) \<or>
   GlobalLastIndex (nodesOf (snd (taskCreateMaster c Index NoKeep host))) = GlobalLastIndex (nodesOf c) + 1"
  using taskCreateMaster_not_created(4) [of c Index host NoKeep]
    taskCreateMaster_unreadable(4) [of c Index host NoKeep]
    taskCreateMaster_readable(3) [of c Index host NoKeep]
  by blast

lemma taskCreateMaster_recorded:
  assumes "fst (taskCreateMaster c Index NoKeep host) = None"
  shows "GlobalLastIndex (nodesOf (snd (taskCreateMaster c Index NoKeep host))) =
      GlobalLastIndex (nodesOf c) + 1"
    and "NumericalID (last (Masters (nodesOf (snd (taskCreateMaster c Index NoKeep host))))) =
      GlobalLastIndex (nodesOf c) + 1"
proof -
  from assms have cr: "createdMaster c Index host"
    using taskCreateMaster_not_created(1) by blast
  with assms have rd: "readable host"
    using taskCreateMaster_unreadable(1) by blast
  show "GlobalLastIndex (nodesOf (snd (taskCreateMaster c Index NoKeep host))) =
      GlobalLastIndex (nodesOf c) + 1"
    by (rule taskCreateMaster_readable(3) [OF cr rd])
  obtain n where "NumericalID n = GlobalLastIndex (nodesOf c) + 1"
    and "Masters (nodesOf (snd (taskCreateMaster c Index NoKeep host))) = Masters (nodesOf c) @ [n]"
    using taskCreateMaster_readable(1) [OF cr rd] by blast
  then show "NumericalID (last (Masters (nodesOf (snd (taskCreateMaster c Index NoKeep host))))) =
      GlobalLastIndex (nodesOf c) + 1"
    by simp
qed

text \<open>Incrementing a counter that has room left.\<close>

lemma uint_increment:
  fixes g :: uint
  assumes "unat g + 1 < 2 ^ 64"
  shows "unat (g + 1) = unat g + 1" and "g < g + 1"
proof -
  show u: "unat (g + 1) = unat g + 1"
    using assms unat_add_lem [of g 1] by simp
  then show "g < g + 1"
    by (simp add: word_less_nat_alt)
qed

lemma strictly_sorted_distinct:
  fixes xs :: "uint list"
  shows "sorted_wrt (<) xs \<Longrightarrow> distinct xs"
  by (induction xs) auto

text \<open>
  The invariant of a sequence of creations: every numerical ID recorded by the sequence
  is above the counter the sequence started from, and the IDs are recorded in
  strictly increasing order.
\<close>

lemma createSequence_ids:
  "unat (GlobalLastIndex (nodesOf c)) + length ops < 2 ^ 64 \<Longrightarrow>
     (\<forall>i \<in> set (fst (createSequence ops c)). GlobalLastIndex (nodesOf c) < i) \<and>
     sorted_wrt (<) (fst (createSequence ops c))"
proof (induction ops arbitrary: c)
  case Nil
  then show ?case by simp
next
  case (Cons op ops)
  let ?g = "GlobalLastIndex (nodesOf c)"
  have room: "unat ?g + 1 < 2 ^ 64"
    using Cons.prems by simp
  have after: "(\<forall>i \<in> set (fst (createSequence ops c')). ?g < i) \<and>
      sorted_wrt (<) (fst (createSequence ops c')) \<and>
      (GlobalLastIndex (nodesOf c') = ?g + 1 \<longrightarrow>
         (\<forall>i \<in> set (fst (createSequence ops c')). ?g + 1 < i))"
    if step: "GlobalLastIndex (nodesOf c') = ?g \<or> GlobalLastIndex (nodesOf c') = ?g + 1" for c'
  proof -
    have "unat (GlobalLastIndex (nodesOf c')) + length ops < 2 ^ 64"
      using step Cons.prems uint_increment(1) [OF room] by auto
    from Cons.IH [OF this]
    have ih: "\<forall>i \<in> set (fst (createSequence ops c')). GlobalLastIndex (nodesOf c') < i"
      and srt: "sorted_wrt (<) (fst (createSequence ops c'))"
      by simp_all
    have "?g \<le> GlobalLastIndex (nodesOf c')"
      using step uint_increment(2) [OF room] by auto
    with ih have "\<forall>i \<in> set (fst (createSequence ops c')). ?g < i"
      by auto
    with ih srt show ?thesis by auto
  qed
  show ?case
  proof (cases op)
    case (CreateMaster Index NoKeep host)
    let ?r = "taskCreateMaster c Index NoKeep host"
    note a = after [OF taskCreateMaster_counter [of c Index NoKeep host]]
    show ?thesis
    proof (cases "fst ?r")
      case None
      then have r: "?r = (None, snd ?r)"
        by (simp add: prod_eq_iff)
      have "fst (createSequence (op # ops) c) = (?g + 1) # fst (createSequence ops (snd ?r))"
        unfolding CreateMaster createSequence.simps
        by (subst r) (simp add: nodesOf_def [symmetric] taskCreateMaster_recorded(2) [OF None]
            split: prod.split)
      then show ?thesis
        using a taskCreateMaster_recorded(1) [OF None] uint_increment(2) [OF room] by auto
    next
      case (Some e)
      then have r: "?r = (Some e, snd ?r)"
        by (simp add: prod_eq_iff)
      have "fst (createSequence (op # ops) c) = fst (createSequence ops (snd ?r))"
        unfolding CreateMaster createSequence.simps by (subst r) simp
      then show ?thesis using a by simp
    qed
  next
    case (CreateNode Index NoKeep host)
    let ?r = "taskCreateNode c Index NoKeep host"
    note a = after [OF taskCreateNode_counter [of c Index NoKeep host]]
    show ?thesis
    proof (cases "fst ?r")
      case (Inr rh)
      then have r: "?r = (Inr rh, snd ?r)"
        by (simp add: prod_eq_iff)
      from Inr have ok: "\<not> isl (fst ?r)" by simp
      have "fst (createSequence (op # ops) c) = (?g + 1) # fst (createSequence ops (snd ?r))"
        unfolding CreateNode createSequence.simps
        by (subst r) (simp add: nodesOf_def [symmetric] taskCreateNode_recorded(2) [OF ok]
            split: prod.split)
      then show ?thesis
        using a taskCreateNode_recorded(1) [OF ok] uint_increment(2) [OF room] by auto
    next
      case (Inl e)
      then have r: "?r = (Inl e, snd ?r)"
        by (simp add: prod_eq_iff)
      have "fst (createSequence (op # ops) c) = fst (createSequence ops (snd ?r))"
        unfolding CreateNode createSequence.simps by (subst r) simp
      then show ?thesis using a by simp
    qed
  qed
qed

text \<open>The same invariant for any interleaving of the \<open>Alter\<close> steps of concurrent
  creations.\<close>

lemma nextIndex_counter:
  "\<exists>index p'. nextIndex nodeType p = Inr (index, p') \<and>
     GlobalLastIndex (payload zeroClusterNodes (NodesV2 p')) =
       GlobalLastIndex (payload zeroClusterNodes (NodesV2 p))"
  by (cases nodeType) (simp_all add: nextIndex_def Let_def payload_def)

lemma registerMaster_counter:
  "(\<exists>e. registerMaster rh p = Inl e) \<or>
   (\<exists>p'. registerMaster rh p = Inr ((), p') \<and>
      GlobalLastIndex (payload zeroClusterNodes (NodesV2 p')) =
        GlobalLastIndex (payload zeroClusterNodes (NodesV2 p)) + 1 \<and>
      NumericalID (last (Masters (payload zeroClusterNodes (NodesV2 p')))) =
        GlobalLastIndex (payload zeroClusterNodes (NodesV2 p)) + 1)"
  by (auto simp: registerMaster_def newClusterNode_def Let_def payload_def split: sum.splits)

lemma registerNode_counter:
  "(\<exists>e. registerNode rh p = Inl e) \<or>
   (\<exists>p'. registerNode rh p = Inr ((), p') \<and>
      GlobalLastIndex (payload zeroClusterNodes (NodesV2 p')) =
        GlobalLastIndex (payload zeroClusterNodes (NodesV2 p)) + 1 \<and>
      NumericalID (last (PrivateNodes (payload zeroClusterNodes (NodesV2 p')))) =
        GlobalLastIndex (payload zeroClusterNodes (NodesV2 p)) + 1)"
  by (auto simp: registerNode_def newClusterNode_def Let_def payload_def split: sum.splits)

lemma schedule_ids:
  "unat (GlobalLastIndex (payload zeroClusterNodes (NodesV2 p))) + length steps < 2 ^ 64 \<Longrightarrow>
     (\<forall>i \<in> set (fst (schedule steps p)). GlobalLastIndex (payload zeroClusterNodes (NodesV2 p)) < i) \<and>
     sorted_wrt (<) (fst (schedule steps p))"
proof (induction steps arbitrary: p)
  case Nil
  then show ?case by simp
next
  case (Cons step steps)
  let ?G = "\<lambda>p. GlobalLastIndex (payload zeroClusterNodes (NodesV2 p))"
  have room: "unat (?G p) + 1 < 2 ^ 64"
    using Cons.prems by simp
  have same: "(\<forall>i \<in> set (fst (schedule steps p')). ?G p < i) \<and> sorted_wrt (<) (fst (schedule steps p'))"
    if "?G p' = ?G p" for p'
    using Cons.IH [of p'] Cons.prems that by simp
  have moved: "(\<forall>i \<in> set (fst (schedule steps p')). ?G p + 1 < i) \<and>
      (\<forall>i \<in> set (fst (schedule steps p')). ?G p < i) \<and> sorted_wrt (<) (fst (schedule steps p'))"
    if m: "?G p' = ?G p + 1" for p'
  proof -
    have "unat (?G p') + length steps < 2 ^ 64"
      using m Cons.prems uint_increment(1) [OF room] by simp
    from Cons.IH [OF this] have ih: "\<forall>i \<in> set (fst (schedule steps p')). ?G p + 1 < i"
      and srt: "sorted_wrt (<) (fst (schedule steps p'))"
      by (simp_all add: m)
    from ih uint_increment(2) [OF room] have "\<forall>i \<in> set (fst (schedule steps p')). ?G p < i"
      by auto
    with ih srt show ?thesis by simp
  qed
  show ?case
  proof (cases step)
    case (NextIndex nodeType)
    obtain index p' where "nextIndex nodeType p = Inr (index, p')" and "?G p' = ?G p"
      using nextIndex_counter by blast
    then show ?thesis
      using same [of p'] by (simp add: NextIndex)
  next
    case (RegisterMaster rh)
    from registerMaster_counter [of rh p] show ?thesis
    proof (elim disjE exE conjE)
      fix e assume "registerMaster rh p = Inl e"
      then show ?thesis
        using same [of p] by (simp add: RegisterMaster)
    next
      fix p' assume r: "registerMaster rh p = Inr ((), p')" and g: "?G p' = ?G p + 1"
        and l: "NumericalID (last (Masters (payload zeroClusterNodes (NodesV2 p')))) = ?G p + 1"
      have "fst (schedule (step # steps) p) = (?G p + 1) # fst (schedule steps p')"
        by (simp add: RegisterMaster r l split: prod.split)
      then show ?thesis
        using moved [OF g] uint_increment(2) [OF room] by simp
    qed
  next
    case (RegisterNode rh)
    from registerNode_counter [of rh p] show ?thesis
    proof (elim disjE exE conjE)
      fix e assume "registerNode rh p = Inl e"
      then show ?thesis
        using same [of p] by (simp add: RegisterNode)
    next
      fix p' assume r: "registerNode rh p = Inr ((), p')" and g: "?G p' = ?G p + 1"
        and l: "NumericalID (last (PrivateNodes (payload zeroClusterNodes (NodesV2 p')))) = ?G p + 1"
      have "fst (schedule (step # steps) p) = (?G p + 1) # fst (schedule steps p')"
        by (simp add: RegisterNode r l split: prod.split)
      then show ?thesis
        using moved [OF g] uint_increment(2) [OF room] by simp
    qed
  qed
qed

text \<open>
  Claim C6. The numerical IDs recorded for the hosts created by a sequence of
  \<open>taskCreateMaster\<close> and \<open>taskCreateNode\<close> runs on one cluster are strictly increasing in
  creation order, hence pairwise distinct, and above the counter the sequence started
  from; failed runs in between do not disturb this. The same holds for concurrent
  runs, that is for any interleaving of their \<open>Alter\<close> steps. The counter is a 64-bit
  \<^verbatim>\<open>uint\<close>: the statement is for sequences that do not exhaust it.
\<close>

theorem numericalIDs_increasing:
  "(unat (GlobalLastIndex (nodesOf c)) + length ops < 2 ^ 64 \<longrightarrow>
      sorted_wrt (<) (fst (createSequence ops c)) \<and> distinct (fst (createSequence ops c)) \<and>
      (\<forall>i \<in> set (fst (createSequence ops c)). GlobalLastIndex (nodesOf c) < i)) \<and>
   (unat (GlobalLastIndex (payload zeroClusterNodes (NodesV2 p))) + length steps < 2 ^ 64 \<longrightarrow>
      sorted_wrt (<) (fst (schedule steps p)) \<and> distinct (fst (schedule steps p)) \<and>
      (\<forall>i \<in> set (fst (schedule steps p)). GlobalLastIndex (payload zeroClusterNodes (NodesV2 p)) < i))"
  using createSequence_ids [of c ops] schedule_ids [of p steps]
  by (auto dest: strictly_sorted_distinct)

lemma exampleSteps_ids: "fst (schedule exampleSteps (props (clusterIn Nominal))) = [5, 6]"
  by (simp add: exampleSteps_def clusterIn_def threeNodes_def nextIndex_def registerMaster_def
      registerNode_def newClusterNode_def newHost_def unreadableHost_def payload_def Let_def)

theorem numericalIDs_increasing_witness:
  "unat (GlobalLastIndex (nodesOf (clusterIn Nominal))) + length exampleOps < 2 ^ 64 \<and>
   unat (GlobalLastIndex (payload zeroClusterNodes (NodesV2 (props (clusterIn Nominal))))) +
     length exampleSteps < 2 ^ 64 \<and>
   sorted_wrt (<) (fst (createSequence exampleOps (clusterIn Nominal))) \<and>
   distinct (fst (createSequence exampleOps (clusterIn Nominal))) \<and>
   sorted_wrt (<) (fst (schedule exampleSteps (props (clusterIn Nominal)))) \<and>
   distinct (fst (schedule exampleSteps (props (clusterIn Nominal))))"
proof -
  have g: "GlobalLastIndex (nodesOf (clusterIn Nominal)) = 4"
    "GlobalLastIndex (payload zeroClusterNodes (NodesV2 (props (clusterIn Nominal)))) = 4"
    by (simp_all add: nodesOf_def clusterIn_def payload_def threeNodes_def)
  have l: "length exampleOps = 4" "length exampleSteps = 6"
    by (simp_all add: exampleOps_def exampleSteps_def)
  show ?thesis
    using numericalIDs_increasing [of "clusterIn Nominal" exampleOps "props (clusterIn Nominal)"
        exampleSteps]
    by (simp add: g l)
qed

end
